theory Spec2Isabelle
  imports Main
begin

section \<open>JSON values and request payloads\<close>

text \<open>
  The tests send JSON objects (\<^verbatim>\<open>json.dumps(payload)\<close>): a request body is a
  dictionary from field names to JSON values, and a response body is built from the
  same values.
\<close>

datatype jvalue = JNull | JBool bool | JNum nat | JStr string | JList "jvalue list"

type_synonym payload = "string \<rightharpoonup> jvalue"

section \<open>Persisted records\<close>

text \<open>
  \<^verbatim>\<open>django.contrib.auth.models.User\<close>, as far as the serializers read it (\<^verbatim>\<open>id\<close>,
  \<^verbatim>\<open>username\<close>).
\<close>

record user =
  user_pk :: nat
  username :: string

text \<open>
  Modelled from the spec: the \<^verbatim>\<open>Snippet\<close> model class of \<^verbatim>\<open>snippets/models.py\<close> is
  not among the sources. Section 3 of the specification lists its fields: identifier
  (auto-assigned, unique), title, code, linenos, language, style, created (timestamp,
  auto-set at creation), owner (reference to a user, nullable until the authentication
  stage) and the derived highlighted field. Timestamps are clock readings, a \<^typ>\<open>nat\<close>.
\<close>

record snippet =
  pk :: nat
  created :: nat
  title :: string
  code :: string
  linenos :: bool
  language :: string
  style :: string
  owner :: "nat option"
  highlighted :: string

text \<open>
  The database: the rows of the two tables in insertion order, and the counter of the
  snippet table's auto-assigned identifier.
\<close>

record db =
  snippets :: "snippet list"
  users :: "user list"
  next_pk :: nat

section \<open>External libraries\<close>

text \<open>
  The serializer fields that \<^verbatim>\<open>ModelSerializer\<close> builds for the model's columns and the
  syntax highlighter are library code. They are parameters of the model: each field is
  its \<^verbatim>\<open>run_validation\<close> on a supplied value (\<open>None\<close> when the field raises
  \<^verbatim>\<open>ValidationError\<close>), and \<open>highlight\<close> renders code in a language with a style, the
  three inputs section 3 of the specification names.
\<close>

record library =
  title_field :: "jvalue \<Rightarrow> string option"
  code_field :: "jvalue \<Rightarrow> string option"
  linenos_field :: "jvalue \<Rightarrow> bool option"
  language_field :: "jvalue \<Rightarrow> string option"
  style_field :: "jvalue \<Rightarrow> string option"
  highlight :: "string \<Rightarrow> string \<Rightarrow> string \<Rightarrow> string"

section \<open>The Snippet model\<close>

text \<open>
  The values a serializer hands to the model: \<^verbatim>\<open>validated_data\<close>, a dictionary that
  holds a key for each writable field the request supplied.
\<close>

record validated_data =
  v_title :: "string option"
  v_code :: "string option"
  v_linenos :: "bool option"
  v_language :: "string option"
  v_style :: "string option"

text \<open>
  Modelled from the spec: the highlighted field is "pre-rendered HTML produced from
  code/language/style at save time" (section 3); \<^verbatim>\<open>Snippet.save\<close> is not among the
  sources.
\<close>

definition render :: "library \<Rightarrow> snippet \<Rightarrow> snippet" where
  "render lib s = s\<lparr>highlighted := highlight lib (code s) (language s) (style s)\<rparr>"

text \<open>
  Modelled from the spec: \<^verbatim>\<open>Snippet.objects.create(**fields, owner=...)\<close>. Section 3 gives
  the defaults (title empty, linenos false, language "python", style "friendly"), the
  auto-assigned identifier and the creation timestamp; a text column that is not given
  is the empty string. The new row is saved, which renders it.
\<close>

definition Snippet_objects_create ::
  "library \<Rightarrow> nat \<Rightarrow> validated_data \<Rightarrow> nat option \<Rightarrow> db \<Rightarrow> snippet \<times> db" where
  "Snippet_objects_create lib t vd own d =
     (let s = render lib
           \<lparr>pk = next_pk d,
            created = t,
            title = (case v_title vd of None \<Rightarrow> [] | Some x \<Rightarrow> x),
            code = (case v_code vd of None \<Rightarrow> [] | Some x \<Rightarrow> x),
            linenos = (case v_linenos vd of None \<Rightarrow> False | Some x \<Rightarrow> x),
            language = (case v_language vd of None \<Rightarrow> ''python'' | Some x \<Rightarrow> x),
            style = (case v_style vd of None \<Rightarrow> ''friendly'' | Some x \<Rightarrow> x),
            owner = own,
            highlighted = []\<rparr>
      in (s, d\<lparr>snippets := snippets d @ [s], next_pk := Suc (next_pk d)\<rparr>))"

text \<open>
  Modelled from the spec: \<^verbatim>\<open>instance.save()\<close> on a row that exists renders the
  instance and writes it over the row with its identifier.
\<close>

definition Snippet_save :: "library \<Rightarrow> snippet \<Rightarrow> db \<Rightarrow> snippet \<times> db" where
  "Snippet_save lib s d =
     (let s' = render lib s
      in (s', d\<lparr>snippets := map (\<lambda>x. if pk x = pk s' then s' else x) (snippets d)\<rparr>))"

text \<open>Modelled from the spec: \<^verbatim>\<open>instance.delete()\<close> removes the row.\<close>

definition Snippet_delete :: "snippet \<Rightarrow> db \<Rightarrow> db" where
  "Snippet_delete s d = d\<lparr>snippets := filter (\<lambda>x. pk x \<noteq> pk s) (snippets d)\<rparr>"

text \<open>
  Modelled from the spec: "Snippets are always returned ordered by creation time
  ascending" (section 3): the default queryset sorts the rows by \<open>created\<close>. Rows with
  equal timestamps keep their insertion order.
\<close>

definition Snippet_objects_all :: "db \<Rightarrow> snippet list" where
  "Snippet_objects_all d = sort_key created (snippets d)"

definition Snippet_objects_count :: "db \<Rightarrow> nat" where
  "Snippet_objects_count d = length (Snippet_objects_all d)"

text \<open>
  Modelled from the spec: the owner reference is "cascade-deleted with the owner"
  (section 3): deleting a user deletes the snippets that refer to it.
\<close>

definition User_delete :: "nat \<Rightarrow> db \<Rightarrow> db" where
  "User_delete u d =
     d\<lparr>snippets := filter (\<lambda>s. owner s \<noteq> Some u) (snippets d),
       users := filter (\<lambda>x. user_pk x \<noteq> u) (users d)\<rparr>"

text \<open>\<^verbatim>\<open>user.snippets.all()\<close>, the reverse relation of the owner reference.\<close>

definition user_snippets :: "db \<Rightarrow> nat \<Rightarrow> snippet list" where
  "user_snippets d u = filter (\<lambda>s. owner s = Some u) (Snippet_objects_all d)"

section \<open>Requests and permissions\<close>

text \<open>
  \<^verbatim>\<open>request.user\<close> is the anonymous user or the authenticated user, a row of the user
  table named by its identifier. The request method is the upper-case string Django
  hands to the view.
\<close>

datatype requester = AnonymousUser | Authenticated nat

record request =
  request_method :: string
  user :: requester
  data :: payload
  now :: nat

definition SAFE_METHODS :: "string list" where
  "SAFE_METHODS = [''GET'', ''HEAD'', ''OPTIONS'']"

fun is_authenticated :: "requester \<Rightarrow> bool" where
  "is_authenticated AnonymousUser = False"
| "is_authenticated (Authenticated u) = True"

text \<open>
  \<^verbatim>\<open>obj.owner == request.user\<close>: two user rows are equal when their identifiers are;
  no row equals the anonymous user, and an empty owner equals nobody.
\<close>

fun owner_eq :: "nat option \<Rightarrow> requester \<Rightarrow> bool" where
  "owner_eq (Some u) (Authenticated v) = (u = v)"
| "owner_eq _ _ = False"

text \<open>\<^verbatim>\<open>IsOwnerOrReadOnly.has_object_permission\<close> of \<^verbatim>\<open>snippets/permissions.py\<close>.\<close>

definition has_object_permission :: "request \<Rightarrow> snippet \<Rightarrow> bool" where
  "has_object_permission req obj =
     (if request_method req \<in> set SAFE_METHODS then True
      else owner_eq (owner obj) (user req))"

text \<open>
  The permission classes the views name. \<^verbatim>\<open>IsAuthenticatedOrReadOnly\<close> is the
  framework's; a class that does not define one of the two checks inherits
  \<^verbatim>\<open>BasePermission\<close>'s, which allows.
\<close>

datatype permission = AllowAny | IsAuthenticatedOrReadOnly | IsOwnerOrReadOnly

fun permission_has_permission :: "permission \<Rightarrow> request \<Rightarrow> bool" where
  "permission_has_permission AllowAny req = True"
| "permission_has_permission IsAuthenticatedOrReadOnly req =
     (request_method req \<in> set SAFE_METHODS \<or> is_authenticated (user req))"
| "permission_has_permission IsOwnerOrReadOnly req = True"

fun permission_has_object_permission :: "permission \<Rightarrow> request \<Rightarrow> snippet \<Rightarrow> bool" where
  "permission_has_object_permission AllowAny req obj = True"
| "permission_has_object_permission IsAuthenticatedOrReadOnly req obj = True"
| "permission_has_object_permission IsOwnerOrReadOnly req obj = has_object_permission req obj"

section \<open>Serializers\<close>

text \<open>
  \<^verbatim>\<open>SnippetSerializer\<close> of \<^verbatim>\<open>snippets/serializers.py\<close>: a model serializer over the
  fields of \<^verbatim>\<open>Meta.fields\<close>. \<^verbatim>\<open>id\<close> is the auto-assigned key and \<^verbatim>\<open>owner\<close> is declared a
  \<^verbatim>\<open>ReadOnlyField\<close>: both are written to responses and never read from a request.
\<close>

definition SnippetSerializer_fields :: "string list" where
  "SnippetSerializer_fields =
     [''id'', ''title'', ''code'', ''linenos'', ''language'', ''style'', ''owner'']"

definition SnippetSerializer_read_only :: "string list" where
  "SnippetSerializer_read_only = [''id'', ''owner'']"

text \<open>
  The fields a request can write are the declared ones that are not read-only, and
  \<^verbatim>\<open>field.get_value\<close> looks only these up in the payload: any other key of the payload
  is never read.
\<close>

definition writable_fields :: "string list" where
  "writable_fields =
     filter (\<lambda>f. f \<notin> set SnippetSerializer_read_only) SnippetSerializer_fields"

definition get_value :: "payload \<Rightarrow> string \<Rightarrow> jvalue option" where
  "get_value dat f = (if f \<in> set writable_fields then dat f else None)"

text \<open>
  Validation of one field. A field that the payload does not hold fails when it is
  required and the update is not partial, and is skipped otherwise; a value that is
  supplied goes through the field's own validation.
\<close>

datatype 'a field_result = Skipped | Failed | Validated 'a

definition run_field ::
  "bool \<Rightarrow> bool \<Rightarrow> (jvalue \<Rightarrow> 'a option) \<Rightarrow> jvalue option \<Rightarrow> 'a field_result" where
  "run_field required partial to_internal_value v =
     (case v of
        None \<Rightarrow> if required \<and> \<not> partial then Failed else Skipped
      | Some x \<Rightarrow> (case to_internal_value x of None \<Rightarrow> Failed | Some y \<Rightarrow> Validated y))"

fun validated_value :: "'a field_result \<Rightarrow> 'a option" where
  "validated_value (Validated y) = Some y"
| "validated_value _ = None"

fun field_errors :: "string \<Rightarrow> 'a field_result \<Rightarrow> string list" where
  "field_errors name Failed = [name]"
| "field_errors name _ = []"

text \<open>
  \<^verbatim>\<open>serializer.is_valid()\<close>: every writable field of \<^verbatim>\<open>Meta.fields\<close> is validated, in
  order. Only \<^verbatim>\<open>code\<close> is required: the other columns have defaults (section 3 of the
  specification). The result is the names of the fields in error
  (\<^verbatim>\<open>serializer.errors\<close>), or \<^verbatim>\<open>serializer.validated_data\<close> when there is none.
\<close>

definition SnippetSerializer_is_valid ::
  "library \<Rightarrow> bool \<Rightarrow> payload \<Rightarrow> string list + validated_data" where
  "SnippetSerializer_is_valid lib partial dat =
     (let t = run_field False partial (title_field lib) (get_value dat ''title'');
          c = run_field True partial (code_field lib) (get_value dat ''code'');
          n = run_field False partial (linenos_field lib) (get_value dat ''linenos'');
          l = run_field False partial (language_field lib) (get_value dat ''language'');
          s = run_field False partial (style_field lib) (get_value dat ''style'');
          errors = field_errors ''title'' t @ field_errors ''code'' c @
                   field_errors ''linenos'' n @ field_errors ''language'' l @
                   field_errors ''style'' s
      in if errors = []
         then Inr \<lparr>v_title = validated_value t, v_code = validated_value c,
                   v_linenos = validated_value n, v_language = validated_value l,
                   v_style = validated_value s\<rparr>
         else Inl errors)"

text \<open>
  \<^verbatim>\<open>serializer.save(**kwargs)\<close> without an instance: \<^verbatim>\<open>ModelSerializer.create\<close> passes
  the validated data and the keyword arguments of \<^verbatim>\<open>save\<close> (the owner) to
  \<^verbatim>\<open>Snippet.objects.create\<close>.
\<close>

definition SnippetSerializer_create ::
  "library \<Rightarrow> nat \<Rightarrow> validated_data \<Rightarrow> nat option \<Rightarrow> db \<Rightarrow> snippet \<times> db" where
  "SnippetSerializer_create lib t vd own d = Snippet_objects_create lib t vd own d"

text \<open>
  \<^verbatim>\<open>serializer.save()\<close> with an instance: \<^verbatim>\<open>ModelSerializer.update\<close> sets the attributes
  that the validated data holds and saves the instance.
\<close>

definition SnippetSerializer_update ::
  "library \<Rightarrow> snippet \<Rightarrow> validated_data \<Rightarrow> db \<Rightarrow> snippet \<times> db" where
  "SnippetSerializer_update lib instance vd d =
     Snippet_save lib
       (instance\<lparr>title := (case v_title vd of None \<Rightarrow> title instance | Some x \<Rightarrow> x),
                 code := (case v_code vd of None \<Rightarrow> code instance | Some x \<Rightarrow> x),
                 linenos := (case v_linenos vd of None \<Rightarrow> linenos instance | Some x \<Rightarrow> x),
                 language := (case v_language vd of None \<Rightarrow> language instance | Some x \<Rightarrow> x),
                 style := (case v_style vd of None \<Rightarrow> style instance | Some x \<Rightarrow> x)\<rparr>) d"

text \<open>
  \<^verbatim>\<open>serializer.data\<close>: the fields of \<^verbatim>\<open>Meta.fields\<close> in order. The owner is written as
  \<^verbatim>\<open>owner.username\<close>; the framework leaves a read-only field out when the path to it
  goes through an empty reference, and writes null when the referenced row is gone.
\<close>

definition owner_username :: "db \<Rightarrow> snippet \<Rightarrow> (string \<times> jvalue) list" where
  "owner_username d s =
     (case owner s of
        None \<Rightarrow> []
      | Some u \<Rightarrow>
          (case find (\<lambda>x. user_pk x = u) (users d) of
             None \<Rightarrow> [(''owner'', JNull)]
           | Some x \<Rightarrow> [(''owner'', JStr (username x))]))"

definition SnippetSerializer_data :: "db \<Rightarrow> snippet \<Rightarrow> (string \<times> jvalue) list" where
  "SnippetSerializer_data d s =
     [(''id'', JNum (pk s)), (''title'', JStr (title s)), (''code'', JStr (code s)),
      (''linenos'', JBool (linenos s)), (''language'', JStr (language s)),
      (''style'', JStr (style s))] @ owner_username d s"

text \<open>
  \<^verbatim>\<open>UserSerializer\<close>: \<^verbatim>\<open>id\<close>, \<^verbatim>\<open>username\<close> and the primary keys of the user's snippets.
\<close>

definition UserSerializer_data :: "db \<Rightarrow> user \<Rightarrow> (string \<times> jvalue) list" where
  "UserSerializer_data d x =
     [(''id'', JNum (user_pk x)), (''username'', JStr (username x)),
      (''snippets'', JList (map (\<lambda>s. JNum (pk s)) (user_snippets d (user_pk x))))]"

section \<open>Views\<close>

text \<open>
  The routes of \<^verbatim>\<open>snippets/urls.py\<close>: each names a view class, and a detail route
  carries the \<^verbatim>\<open>pk\<close> it captured. \<^verbatim>\<open>SnippetHighlight\<close> is the route the hyperlinked
  stage adds.
\<close>

datatype view =
  SnippetList | SnippetDetail nat | UserList | UserDetail nat | SnippetHighlight nat

text \<open>
  \<^verbatim>\<open>permission_classes\<close> of each view class in \<^verbatim>\<open>snippets/views.py\<close>. A view that
  declares none runs with the framework's default, which allows every request (the
  tests post to the user list without logging in and reach the method check).
\<close>

fun permission_classes :: "view \<Rightarrow> permission list" where
  "permission_classes SnippetList = [IsAuthenticatedOrReadOnly]"
| "permission_classes (SnippetDetail k) = [IsAuthenticatedOrReadOnly, IsOwnerOrReadOnly]"
| "permission_classes UserList = [AllowAny]"
| "permission_classes (UserDetail k) = [AllowAny]"
| "permission_classes (SnippetHighlight k) = [AllowAny]"

text \<open>
  The handlers each view class has: those of its generic base class
  (\<^verbatim>\<open>ListCreateAPIView\<close>: get, post; \<^verbatim>\<open>RetrieveUpdateDestroyAPIView\<close>: get, put, patch,
  delete; \<^verbatim>\<open>ListAPIView\<close> and \<^verbatim>\<open>RetrieveAPIView\<close>: get), the \<^verbatim>\<open>get\<close> that
  \<^verbatim>\<open>SnippetHighlight\<close> defines, \<^verbatim>\<open>head\<close> wherever there is a \<^verbatim>\<open>get\<close>, and the
  \<^verbatim>\<open>options\<close> of every framework view.
\<close>

fun allowed_methods :: "view \<Rightarrow> string list" where
  "allowed_methods SnippetList = [''GET'', ''POST'', ''HEAD'', ''OPTIONS'']"
| "allowed_methods (SnippetDetail k) =
     [''GET'', ''PUT'', ''PATCH'', ''DELETE'', ''HEAD'', ''OPTIONS'']"
| "allowed_methods UserList = [''GET'', ''HEAD'', ''OPTIONS'']"
| "allowed_methods (UserDetail k) = [''GET'', ''HEAD'', ''OPTIONS'']"
| "allowed_methods (SnippetHighlight k) = [''GET'', ''HEAD'', ''OPTIONS'']"

subsection \<open>Responses\<close>

datatype body =
    NoBody
  | Detail
  | Errors "string list"
  | Data "(string \<times> jvalue) list"
  | DataList "(string \<times> jvalue) list list"
  | Html string
  | Metadata

record response =
  status_code :: nat
  content :: body

abbreviation HTTP_200_OK :: nat where "HTTP_200_OK \<equiv> 200"
abbreviation HTTP_201_CREATED :: nat where "HTTP_201_CREATED \<equiv> 201"
abbreviation HTTP_204_NO_CONTENT :: nat where "HTTP_204_NO_CONTENT \<equiv> 204"
abbreviation HTTP_400_BAD_REQUEST :: nat where "HTTP_400_BAD_REQUEST \<equiv> 400"
abbreviation HTTP_403_FORBIDDEN :: nat where "HTTP_403_FORBIDDEN \<equiv> 403"
abbreviation HTTP_404_NOT_FOUND :: nat where "HTTP_404_NOT_FOUND \<equiv> 404"
abbreviation HTTP_405_METHOD_NOT_ALLOWED :: nat where "HTTP_405_METHOD_NOT_ALLOWED \<equiv> 405"
abbreviation HTTP_500_INTERNAL_SERVER_ERROR :: nat where "HTTP_500_INTERNAL_SERVER_ERROR \<equiv> 500"

definition Response :: "nat \<Rightarrow> body \<Rightarrow> response" where
  "Response st b = \<lparr>status_code = st, content = b\<rparr>"

text \<open>
  The responses the framework's exception handler makes of \<^verbatim>\<open>ValidationError\<close>,
  \<^verbatim>\<open>NotAuthenticated\<close> and \<^verbatim>\<open>PermissionDenied\<close> (both 403 under session
  authentication, as the tests assert), \<^verbatim>\<open>Http404\<close> and \<^verbatim>\<open>MethodNotAllowed\<close>.
\<close>

definition bad_request :: "string list \<Rightarrow> response" where
  "bad_request errs = Response HTTP_400_BAD_REQUEST (Errors errs)"

definition permission_denied :: response where
  "permission_denied = Response HTTP_403_FORBIDDEN Detail"

definition not_found :: response where
  "not_found = Response HTTP_404_NOT_FOUND Detail"

definition http_method_not_allowed :: response where
  "http_method_not_allowed = Response HTTP_405_METHOD_NOT_ALLOWED Detail"

definition server_error :: response where
  "server_error = Response HTTP_500_INTERNAL_SERVER_ERROR NoBody"

subsection \<open>Permission checks and object lookup\<close>

text \<open>
  \<^verbatim>\<open>check_permissions\<close> and \<^verbatim>\<open>check_object_permissions\<close>: every class of the view's
  \<^verbatim>\<open>permission_classes\<close> has to allow.
\<close>

definition check_permissions :: "view \<Rightarrow> request \<Rightarrow> bool" where
  "check_permissions v req = list_all (\<lambda>p. permission_has_permission p req) (permission_classes v)"

definition check_object_permissions :: "view \<Rightarrow> request \<Rightarrow> snippet \<Rightarrow> bool" where
  "check_object_permissions v req obj =
     list_all (\<lambda>p. permission_has_object_permission p req obj) (permission_classes v)"

text \<open>
  \<^verbatim>\<open>get_object\<close>: the row of the view's queryset (\<^verbatim>\<open>Snippet.objects.all()\<close>) with the
  captured key, or 404; then the object-level permission checks, or 403.
\<close>

definition get_object :: "view \<Rightarrow> nat \<Rightarrow> request \<Rightarrow> db \<Rightarrow> response + snippet" where
  "get_object v k req d =
     (case find (\<lambda>s. pk s = k) (Snippet_objects_all d) of
        None \<Rightarrow> Inl not_found
      | Some obj \<Rightarrow>
          if check_object_permissions v req obj then Inr obj else Inl permission_denied)"

subsection \<open>Handlers of the generic views\<close>

text \<open>\<^verbatim>\<open>ListModelMixin.list\<close>: the serialized queryset.\<close>

definition list_snippets :: "db \<Rightarrow> response \<times> db" where
  "list_snippets d =
     (Response HTTP_200_OK (DataList (map (SnippetSerializer_data d) (Snippet_objects_all d))), d)"

text \<open>
  \<^verbatim>\<open>SnippetList.perform_create\<close> of \<^verbatim>\<open>snippets/views.py\<close>:
  \<^verbatim>\<open>serializer.save(owner=self.request.user)\<close>. The owner column takes a user row; the
  anonymous user is none, and the assignment raises.
\<close>

definition perform_create ::
  "library \<Rightarrow> request \<Rightarrow> validated_data \<Rightarrow> db \<Rightarrow> (snippet \<times> db) option" where
  "perform_create lib req vd d =
     (case user req of
        AnonymousUser \<Rightarrow> None
      | Authenticated u \<Rightarrow> Some (SnippetSerializer_create lib (now req) vd (Some u) d))"

text \<open>
  \<^verbatim>\<open>CreateModelMixin.create\<close>: \<^verbatim>\<open>is_valid(raise_exception=True)\<close>, then
  \<^verbatim>\<open>perform_create\<close>, then 201 with the serialized row.
\<close>

definition create :: "library \<Rightarrow> request \<Rightarrow> db \<Rightarrow> response \<times> db" where
  "create lib req d =
     (case SnippetSerializer_is_valid lib False (data req) of
        Inl errs \<Rightarrow> (bad_request errs, d)
      | Inr vd \<Rightarrow>
          (case perform_create lib req vd d of
             None \<Rightarrow> (server_error, d)
           | Some (s, d') \<Rightarrow> (Response HTTP_201_CREATED (Data (SnippetSerializer_data d' s)), d')))"

text \<open>\<^verbatim>\<open>RetrieveModelMixin.retrieve\<close>.\<close>

definition retrieve :: "view \<Rightarrow> nat \<Rightarrow> request \<Rightarrow> db \<Rightarrow> response \<times> db" where
  "retrieve v k req d =
     (case get_object v k req d of
        Inl r \<Rightarrow> (r, d)
      | Inr obj \<Rightarrow> (Response HTTP_200_OK (Data (SnippetSerializer_data d obj)), d))"

text \<open>
  \<^verbatim>\<open>UpdateModelMixin.update\<close> (\<^verbatim>\<open>partial_update\<close> is the same with \<open>partial\<close> set): the
  object is looked up first, then the payload is validated, then the instance is saved.
\<close>

definition update :: "library \<Rightarrow> bool \<Rightarrow> view \<Rightarrow> nat \<Rightarrow> request \<Rightarrow> db \<Rightarrow> response \<times> db" where
  "update lib partial v k req d =
     (case get_object v k req d of
        Inl r \<Rightarrow> (r, d)
      | Inr obj \<Rightarrow>
          (case SnippetSerializer_is_valid lib partial (data req) of
             Inl errs \<Rightarrow> (bad_request errs, d)
           | Inr vd \<Rightarrow>
               (case SnippetSerializer_update lib obj vd d of
                  (s, d') \<Rightarrow> (Response HTTP_200_OK (Data (SnippetSerializer_data d' s)), d'))))"

text \<open>\<^verbatim>\<open>DestroyModelMixin.destroy\<close>.\<close>

definition destroy :: "view \<Rightarrow> nat \<Rightarrow> request \<Rightarrow> db \<Rightarrow> response \<times> db" where
  "destroy v k req d =
     (case get_object v k req d of
        Inl r \<Rightarrow> (r, d)
      | Inr obj \<Rightarrow> (Response HTTP_204_NO_CONTENT NoBody, Snippet_delete obj d))"

text \<open>The two read-only user views: the user table, and one row of it or 404.\<close>

definition list_users :: "db \<Rightarrow> response \<times> db" where
  "list_users d = (Response HTTP_200_OK (DataList (map (UserSerializer_data d) (users d))), d)"

definition retrieve_user :: "nat \<Rightarrow> db \<Rightarrow> response \<times> db" where
  "retrieve_user k d =
     (case find (\<lambda>x. user_pk x = k) (users d) of
        None \<Rightarrow> (not_found, d)
      | Some x \<Rightarrow> (Response HTTP_200_OK (Data (UserSerializer_data d x)), d))"

text \<open>
  \<^verbatim>\<open>SnippetHighlight.get\<close> of \<^verbatim>\<open>snippets/views.py\<close> (the \<^verbatim>\<open>highlight\<close> action of the
  viewset stage has the same body): \<^verbatim>\<open>Response(snippet.highlighted)\<close>.
\<close>

definition SnippetHighlight_get :: "nat \<Rightarrow> request \<Rightarrow> db \<Rightarrow> response \<times> db" where
  "SnippetHighlight_get k req d =
     (case get_object (SnippetHighlight k) k req d of
        Inl r \<Rightarrow> (r, d)
      | Inr snippet \<Rightarrow> (Response HTTP_200_OK (Html (highlighted snippet)), d))"

text \<open>\<^verbatim>\<open>APIView.options\<close>: a description of the endpoint.\<close>

definition options :: "db \<Rightarrow> response \<times> db" where
  "options d = (Response HTTP_200_OK Metadata, d)"

subsection \<open>Dispatch\<close>

text \<open>
  The handler of a view for a method: the method of that name, \<^verbatim>\<open>head\<close> being
  \<^verbatim>\<open>get\<close>, and \<^verbatim>\<open>http_method_not_allowed\<close> when the class has none.
\<close>

fun handler :: "library \<Rightarrow> view \<Rightarrow> request \<Rightarrow> db \<Rightarrow> response \<times> db" where
  "handler lib SnippetList req d =
     (if request_method req = ''GET'' \<or> request_method req = ''HEAD'' then list_snippets d
      else if request_method req = ''POST'' then create lib req d
      else if request_method req = ''OPTIONS'' then options d
      else (http_method_not_allowed, d))"
| "handler lib (SnippetDetail k) req d =
     (if request_method req = ''GET'' \<or> request_method req = ''HEAD'' then retrieve (SnippetDetail k) k req d
      else if request_method req = ''PUT'' then update lib False (SnippetDetail k) k req d
      else if request_method req = ''PATCH'' then update lib True (SnippetDetail k) k req d
      else if request_method req = ''DELETE'' then destroy (SnippetDetail k) k req d
      else if request_method req = ''OPTIONS'' then options d
      else (http_method_not_allowed, d))"
| "handler lib UserList req d =
     (if request_method req = ''GET'' \<or> request_method req = ''HEAD'' then list_users d
      else if request_method req = ''OPTIONS'' then options d
      else (http_method_not_allowed, d))"
| "handler lib (UserDetail k) req d =
     (if request_method req = ''GET'' \<or> request_method req = ''HEAD'' then retrieve_user k d
      else if request_method req = ''OPTIONS'' then options d
      else (http_method_not_allowed, d))"
| "handler lib (SnippetHighlight k) req d =
     (if request_method req = ''GET'' \<or> request_method req = ''HEAD'' then SnippetHighlight_get k req d
      else if request_method req = ''OPTIONS'' then options d
      else (http_method_not_allowed, d))"

text \<open>
  \<^verbatim>\<open>APIView.dispatch\<close>: \<^verbatim>\<open>initial\<close> runs the view-level permission checks before the
  handler is looked up; a denial is answered 403 whatever the method and the route's key.
\<close>

definition dispatch :: "library \<Rightarrow> view \<Rightarrow> request \<Rightarrow> db \<Rightarrow> response \<times> db" where
  "dispatch lib v req d =
     (if check_permissions v req then handler lib v req d else (permission_denied, d))"

text \<open>A sequence of requests, each served on the database the one before left.\<close>

fun serve :: "library \<Rightarrow> (view \<times> request) list \<Rightarrow> db \<Rightarrow> db" where
  "serve lib [] d = d"
| "serve lib ((v, req) # rs) d = serve lib rs (snd (dispatch lib v req d))"

section \<open>The fixtures of the test suites\<close>

text \<open>
  A library to run the model on: text fields take JSON strings (the code not blank),
  the boolean field takes JSON booleans, and the highlighter wraps the code in a page.
\<close>

fun text_field :: "jvalue \<Rightarrow> string option" where
  "text_field (JStr s) = Some s"
| "text_field _ = None"

fun nonblank_field :: "jvalue \<Rightarrow> string option" where
  "nonblank_field (JStr s) = (if s = [] then None else Some s)"
| "nonblank_field _ = None"

fun boolean_field :: "jvalue \<Rightarrow> bool option" where
  "boolean_field (JBool b) = Some b"
| "boolean_field _ = None"

definition test_library :: library where
  "test_library =
     \<lparr>title_field = text_field, code_field = nonblank_field, linenos_field = boolean_field,
      language_field = text_field, style_field = text_field,
      highlight = (\<lambda>c l s. ''<html>'' @ c @ ''</html>'')\<rparr>"

text \<open>
  \<^verbatim>\<open>SnippetViewTests.setUp\<close> of the authentication stage: two users, and one snippet of
  each, created one after the other.
\<close>

definition setUp_users :: db where
  "setUp_users =
     \<lparr>snippets = [],
      users = [\<lparr>user_pk = 1, username = ''user1''\<rparr>, \<lparr>user_pk = 2, username = ''user2''\<rparr>],
      next_pk = 1\<rparr>"

definition setUp_first :: "snippet \<times> db" where
  "setUp_first =
     Snippet_objects_create test_library 1
       \<lparr>v_title = Some ''First Snippet'', v_code = Some ''print(1)'', v_linenos = None,
        v_language = Some ''python'', v_style = None\<rparr> (Some 1) setUp_users"

definition setUp_second :: "snippet \<times> db" where
  "setUp_second =
     Snippet_objects_create test_library 2
       \<lparr>v_title = Some ''Second Snippet'', v_code = Some ''console.log(2)'', v_linenos = None,
        v_language = Some ''javascript'', v_style = None\<rparr> (Some 2) (snd setUp_first)"

definition snippet1 :: snippet where
  "snippet1 = fst setUp_first"

definition snippet2 :: snippet where
  "snippet2 = fst setUp_second"

definition setUp :: db where
  "setUp = snd setUp_second"

text \<open>The test client: not logged in, or logged in as a user; the clock reads 3.\<close>

definition anonymous :: "string \<Rightarrow> payload \<Rightarrow> request" where
  "anonymous m p = \<lparr>request_method = m, user = AnonymousUser, data = p, now = 3\<rparr>"

definition logged_in :: "nat \<Rightarrow> string \<Rightarrow> payload \<Rightarrow> request" where
  "logged_in u m p = \<lparr>request_method = m, user = Authenticated u, data = p, now = 3\<rparr>"

section \<open>The writable fields\<close>

lemma writable_fields_eq:
  "writable_fields = [''title'', ''code'', ''linenos'', ''language'', ''style'']"
  by (simp add: writable_fields_def SnippetSerializer_fields_def SnippetSerializer_read_only_def)

lemma get_value_writable [simp]:
  "get_value dat ''title'' = dat ''title''" "get_value dat ''code'' = dat ''code''"
  "get_value dat ''linenos'' = dat ''linenos''" "get_value dat ''language'' = dat ''language''"
  "get_value dat ''style'' = dat ''style''"
  by (simp_all add: get_value_def writable_fields_eq)

lemma get_value_read_only:
  "get_value dat ''id'' = None" "get_value dat ''owner'' = None"
  "get_value dat ''highlighted'' = None"
  by (simp_all add: get_value_def writable_fields_eq)

section \<open>The fixtures, evaluated\<close>

lemma snippet1_eq:
  "snippet1 = \<lparr>pk = 1, created = 1, title = ''First Snippet'', code = ''print(1)'',
     linenos = False, language = ''python'', style = ''friendly'', owner = Some 1,
     highlighted = ''<html>print(1)</html>''\<rparr>"
  by (simp add: snippet1_def setUp_first_def setUp_users_def Snippet_objects_create_def
      render_def test_library_def Let_def)

lemma snippet2_eq:
  "snippet2 = \<lparr>pk = 2, created = 2, title = ''Second Snippet'', code = ''console.log(2)'',
     linenos = False, language = ''javascript'', style = ''friendly'', owner = Some 2,
     highlighted = ''<html>console.log(2)</html>''\<rparr>"
  by (simp add: snippet2_def setUp_second_def setUp_first_def setUp_users_def
      Snippet_objects_create_def render_def test_library_def Let_def)

lemma setUp_eq:
  "setUp = \<lparr>snippets = [snippet1, snippet2],
     users = [\<lparr>user_pk = 1, username = ''user1''\<rparr>, \<lparr>user_pk = 2, username = ''user2''\<rparr>],
     next_pk = 3\<rparr>"
  by (simp add: setUp_def snippet1_def snippet2_def setUp_second_def setUp_first_def
      setUp_users_def Snippet_objects_create_def Let_def)

lemma all_setUp: "Snippet_objects_all setUp = [snippet1, snippet2]"
  by (simp add: Snippet_objects_all_def setUp_eq snippet1_eq snippet2_eq)

section \<open>Permissions\<close>

lemma owner_eq_iff: "owner_eq own r \<longleftrightarrow> (\<exists>u. r = Authenticated u \<and> own = Some u)"
  by (cases own; cases r) auto

lemma check_permissions_SnippetList:
  "check_permissions SnippetList req \<longleftrightarrow>
     request_method req \<in> set SAFE_METHODS \<or> is_authenticated (user req)"
  by (simp add: check_permissions_def)

lemma check_permissions_SnippetDetail:
  "check_permissions (SnippetDetail k) req \<longleftrightarrow>
     request_method req \<in> set SAFE_METHODS \<or> is_authenticated (user req)"
  by (simp add: check_permissions_def)

lemma check_permissions_open:
  "check_permissions UserList req" "check_permissions (UserDetail k) req"
  "check_permissions (SnippetHighlight k) req"
  by (simp_all add: check_permissions_def)

lemma check_object_permissions_SnippetDetail:
  "check_object_permissions (SnippetDetail k) req obj = has_object_permission req obj"
  by (simp add: check_object_permissions_def)

lemma check_object_permissions_SnippetHighlight:
  "check_object_permissions (SnippetHighlight k) req obj"
  by (simp add: check_object_permissions_def)

lemma owner_allowed:
  "user req = Authenticated u \<Longrightarrow> owner obj = Some u \<Longrightarrow> has_object_permission req obj"
  by (simp add: has_object_permission_def)

lemma get_object_cases:
  "get_object v k req d =
     (case find (\<lambda>s. pk s = k) (Snippet_objects_all d) of
        None \<Rightarrow> Inl not_found
      | Some obj \<Rightarrow> if check_object_permissions v req obj then Inr obj else Inl permission_denied)"
  by (simp add: get_object_def)

lemma get_object_owner:
  assumes "find (\<lambda>s. pk s = k) (Snippet_objects_all d) = Some obj"
    and "user req = Authenticated u" and "owner obj = Some u"
  shows "get_object (SnippetDetail k) k req d = Inr obj"
  using assms
  by (simp add: get_object_def check_object_permissions_SnippetDetail owner_allowed)

section \<open>Status codes and handlers\<close>

lemmas responses =
  Response_def bad_request_def permission_denied_def not_found_def
  http_method_not_allowed_def server_error_def

lemma handler_not_allowed:
  "request_method req \<notin> set (allowed_methods v) \<Longrightarrow>
   handler lib v req d = (http_method_not_allowed, d)"
  by (cases v) auto

lemma read_handlers_unchanged:
  "snd (list_snippets d) = d" "snd (retrieve v k req d) = d" "snd (list_users d) = d"
  "snd (retrieve_user k d) = d" "snd (SnippetHighlight_get k req d) = d" "snd (options d) = d"
  by (simp_all add: list_snippets_def retrieve_def list_users_def retrieve_user_def
      SnippetHighlight_get_def options_def split: sum.splits option.splits)

text \<open>A handler that answers with an error status has written nothing.\<close>

lemma handler_failed_unchanged:
  "400 \<le> status_code (fst (handler lib v req d)) \<Longrightarrow> snd (handler lib v req d) = d"
  by (cases v)
    (auto simp: create_def update_def retrieve_def destroy_def SnippetHighlight_get_def
      list_snippets_def list_users_def retrieve_user_def options_def Response_def
      split: sum.splits option.splits prod.splits if_splits)

lemma dispatch_failed_unchanged:
  "400 \<le> status_code (fst (dispatch lib v req d)) \<Longrightarrow> snd (dispatch lib v req d) = d"
  using handler_failed_unchanged [of lib v req d] by (simp add: dispatch_def split: if_splits)

lemma retrieve_get:
  assumes "request_method req = ''GET''"
  shows "dispatch lib (SnippetDetail k) req d =
     (case find (\<lambda>s. pk s = k) (Snippet_objects_all d) of
        None \<Rightarrow> (not_found, d)
      | Some obj \<Rightarrow> (Response HTTP_200_OK (Data (SnippetSerializer_data d obj)), d))"
  using assms
  by (simp add: dispatch_def check_permissions_SnippetDetail SAFE_METHODS_def retrieve_def
      get_object_def check_object_permissions_SnippetDetail has_object_permission_def
      split: option.splits)

lemma user_views_405:
  assumes "request_method req \<in> {''POST'', ''PUT'', ''PATCH'', ''DELETE''}"
  shows "dispatch lib UserList req d = (http_method_not_allowed, d)"
    and "dispatch lib (UserDetail k) req d = (http_method_not_allowed, d)"
  using assms by (auto simp: dispatch_def check_permissions_open)

lemma highlight_get:
  assumes "find (\<lambda>s. pk s = k) (Snippet_objects_all d) = Some obj"
    and "request_method req = ''GET''"
  shows "dispatch lib (SnippetHighlight k) req d = (Response HTTP_200_OK (Html (highlighted obj)), d)"
  using assms
  by (simp add: dispatch_def check_permissions_open SnippetHighlight_get_def get_object_def
      check_object_permissions_SnippetHighlight)

section \<open>What a request reads of its payload\<close>

text \<open>
  The serializer reads the five writable fields and nothing else, so two payloads that
  agree on them are served alike.
\<close>

lemma is_valid_cong:
  "p ''title'' = q ''title'' \<Longrightarrow> p ''code'' = q ''code'' \<Longrightarrow> p ''linenos'' = q ''linenos'' \<Longrightarrow>
   p ''language'' = q ''language'' \<Longrightarrow> p ''style'' = q ''style'' \<Longrightarrow>
   SnippetSerializer_is_valid lib partial p = SnippetSerializer_is_valid lib partial q"
  by (simp add: SnippetSerializer_is_valid_def)

lemma check_object_permissions_data:
  "check_object_permissions v (req\<lparr>data := p\<rparr>) obj = check_object_permissions v req obj"
  by (cases v) (simp_all add: check_object_permissions_def has_object_permission_def)

lemma get_object_data: "get_object v k (req\<lparr>data := p\<rparr>) d = get_object v k req d"
  by (simp add: get_object_def check_object_permissions_data cong: option.case_cong)

lemma perform_create_data:
  "perform_create lib (req\<lparr>data := p\<rparr>) vd d = perform_create lib req vd d"
  by (simp add: perform_create_def cong: requester.case_cong)

lemma dispatch_data_cong:
  assumes "p ''title'' = data req ''title''" "p ''code'' = data req ''code''"
    "p ''linenos'' = data req ''linenos''" "p ''language'' = data req ''language''"
    "p ''style'' = data req ''style''"
  shows "dispatch lib v (req\<lparr>data := p\<rparr>) d = dispatch lib v req d"
proof -
  have v: "SnippetSerializer_is_valid lib partial p =
      SnippetSerializer_is_valid lib partial (data req)" for partial
    using assms by (rule is_valid_cong)
  have c: "check_permissions v (req\<lparr>data := p\<rparr>) = check_permissions v req"
    by (cases v) (simp_all add: check_permissions_def)
  have h: "handler lib v (req\<lparr>data := p\<rparr>) d = handler lib v req d"
    by (cases v)
      (simp_all add: create_def update_def retrieve_def destroy_def SnippetHighlight_get_def
        get_object_data v perform_create_data cong: sum.case_cong)
  show ?thesis by (simp add: dispatch_def c h)
qed

section \<open>Validation and creation\<close>

lemma create_defaults:
  "v_title vd = None \<Longrightarrow> v_linenos vd = None \<Longrightarrow> v_language vd = None \<Longrightarrow>
   v_style vd = None \<Longrightarrow>
   title (fst (Snippet_objects_create lib t vd own d)) = [] \<and>
   \<not> linenos (fst (Snippet_objects_create lib t vd own d)) \<and>
   language (fst (Snippet_objects_create lib t vd own d)) = ''python'' \<and>
   style (fst (Snippet_objects_create lib t vd own d)) = ''friendly''"
  by (simp add: Snippet_objects_create_def Let_def render_def)

lemma only_code_validated:
  assumes "dom p = {''code''}" and "SnippetSerializer_is_valid lib partial p = Inr vd"
  shows "v_title vd = None \<and> v_linenos vd = None \<and> v_language vd = None \<and> v_style vd = None"
proof -
  have "''title'' \<notin> dom p" "''linenos'' \<notin> dom p" "''language'' \<notin> dom p" "''style'' \<notin> dom p"
    unfolding assms(1) by simp_all
  then have n: "p ''title'' = None" "p ''linenos'' = None" "p ''language'' = None"
    "p ''style'' = None"
    by (simp_all add: domIff)
  from assms(2) show ?thesis
    by (auto simp: SnippetSerializer_is_valid_def Let_def n run_field_def split: if_splits)
qed

lemma missing_code_invalid:
  "p ''code'' = None \<Longrightarrow>
   \<exists>errs. SnippetSerializer_is_valid lib False p = Inl errs \<and> ''code'' \<in> set errs"
  by (simp add: SnippetSerializer_is_valid_def Let_def run_field_def)

text \<open>A POST that is answered 201 was validated, and its row is the requester's.\<close>

lemma post_created:
  assumes "request_method req = ''POST''"
    and "status_code (fst (dispatch lib SnippetList req d)) = HTTP_201_CREATED"
  shows "\<exists>u vd. user req = Authenticated u \<and>
           SnippetSerializer_is_valid lib False (data req) = Inr vd \<and>
           snd (dispatch lib SnippetList req d) =
             snd (SnippetSerializer_create lib (now req) vd (Some u) d)"
  using assms
  by (auto simp: dispatch_def create_def perform_create_def case_prod_beta responses
      split: if_splits sum.splits requester.splits)

lemma created_by_requester:
  assumes "request_method req = ''POST''"
    and "status_code (fst (dispatch lib SnippetList req d)) = HTTP_201_CREATED"
  shows "\<exists>u s. user req = Authenticated u \<and>
           snippets (snd (dispatch lib SnippetList req d)) = snippets d @ [s] \<and>
           owner s = Some u \<and> pk s = next_pk d \<and> created s = now req"
proof -
  from post_created [OF assms] obtain u vd where
    u: "user req = Authenticated u"
    and s: "snd (dispatch lib SnippetList req d) =
             snd (SnippetSerializer_create lib (now req) vd (Some u) d)"
    by auto
  show ?thesis
    unfolding s using u
    by (simp add: SnippetSerializer_create_def Snippet_objects_create_def Let_def render_def)
qed

lemma minimal_post_defaults:
  assumes "dom (data req) = {''code''}" and "request_method req = ''POST''"
    and "status_code (fst (dispatch lib SnippetList req d)) = HTTP_201_CREATED"
  shows "\<exists>s. snippets (snd (dispatch lib SnippetList req d)) = snippets d @ [s] \<and>
           title s = [] \<and> \<not> linenos s \<and> language s = ''python'' \<and> style s = ''friendly''"
proof -
  from post_created [OF assms(2,3)] obtain u vd where
    v: "SnippetSerializer_is_valid lib False (data req) = Inr vd"
    and s: "snd (dispatch lib SnippetList req d) =
             snd (SnippetSerializer_create lib (now req) vd (Some u) d)"
    by auto
  from only_code_validated [OF assms(1) v]
  have n: "v_title vd = None" "v_linenos vd = None" "v_language vd = None" "v_style vd = None"
    by simp_all
  show ?thesis
    unfolding s
    by (simp add: SnippetSerializer_create_def Snippet_objects_create_def Let_def render_def n)
qed

section \<open>Rendering is kept by every request\<close>

lemma create_rendered:
  "\<forall>s\<in>set (snippets d). highlighted s = highlight lib (code s) (language s) (style s) \<Longrightarrow>
   \<forall>s\<in>set (snippets (snd (Snippet_objects_create lib t vd own d))).
      highlighted s = highlight lib (code s) (language s) (style s)"
  by (auto simp: Snippet_objects_create_def Let_def render_def)

lemma save_rendered:
  "\<forall>s\<in>set (snippets d). highlighted s = highlight lib (code s) (language s) (style s) \<Longrightarrow>
   \<forall>s\<in>set (snippets (snd (Snippet_save lib x d))).
      highlighted s = highlight lib (code s) (language s) (style s)"
  by (auto simp: Snippet_save_def Let_def render_def)

lemma delete_rendered:
  "\<forall>s\<in>set (snippets d). highlighted s = highlight lib (code s) (language s) (style s) \<Longrightarrow>
   \<forall>s\<in>set (snippets (Snippet_delete x d)).
      highlighted s = highlight lib (code s) (language s) (style s)"
  by (auto simp: Snippet_delete_def)

lemma create_handler_rendered:
  "\<forall>s\<in>set (snippets d). highlighted s = highlight lib (code s) (language s) (style s) \<Longrightarrow>
   \<forall>s\<in>set (snippets (snd (create lib req d))).
      highlighted s = highlight lib (code s) (language s) (style s)"
  using create_rendered [of d lib]
  by (auto simp: create_def perform_create_def SnippetSerializer_create_def case_prod_beta
      split: sum.splits requester.splits)

lemma update_handler_rendered:
  "\<forall>s\<in>set (snippets d). highlighted s = highlight lib (code s) (language s) (style s) \<Longrightarrow>
   \<forall>s\<in>set (snippets (snd (update lib partial v k req d))).
      highlighted s = highlight lib (code s) (language s) (style s)"
  using save_rendered [of d lib]
  by (auto simp: update_def SnippetSerializer_update_def case_prod_beta split: sum.splits)

lemma destroy_handler_rendered:
  "\<forall>s\<in>set (snippets d). highlighted s = highlight lib (code s) (language s) (style s) \<Longrightarrow>
   \<forall>s\<in>set (snippets (snd (destroy v k req d))).
      highlighted s = highlight lib (code s) (language s) (style s)"
  using delete_rendered [of d lib]
  by (auto simp: destroy_def split: sum.splits)

lemma dispatch_rendered:
  assumes "\<forall>s\<in>set (snippets d). highlighted s = highlight lib (code s) (language s) (style s)"
  shows "\<forall>s\<in>set (snippets (snd (dispatch lib v req d))).
      highlighted s = highlight lib (code s) (language s) (style s)"
proof -
  have "\<forall>s\<in>set (snippets (snd (handler lib v req d))).
      highlighted s = highlight lib (code s) (language s) (style s)"
    using assms create_handler_rendered [OF assms] update_handler_rendered [OF assms]
      destroy_handler_rendered [OF assms]
    by (cases v) (simp_all add: read_handlers_unchanged)
  with assms show ?thesis
    by (simp add: dispatch_def)
qed

lemma serve_rendered:
  "\<forall>s\<in>set (snippets d). highlighted s = highlight lib (code s) (language s) (style s) \<Longrightarrow>
   \<forall>s\<in>set (snippets (serve lib rs d)).
      highlighted s = highlight lib (code s) (language s) (style s)"
proof (induction rs arbitrary: d)
  case Nil
  then show ?case by simp
next
  case (Cons r rs)
  obtain v req where r: "r = (v, req)" by (cases r)
  from Cons.prems have "\<forall>s\<in>set (snippets (snd (dispatch lib v req d))).
      highlighted s = highlight lib (code s) (language s) (style s)"
    by (rule dispatch_rendered)
  then show ?case
    unfolding r serve.simps by (rule Cons.IH)
qed

section \<open>The test scenarios, evaluated\<close>

lemma no_code_invalid:
  "SnippetSerializer_is_valid test_library False [''title'' \<mapsto> JStr ''No Code''] = Inl [''code'']"
  by (simp add: SnippetSerializer_is_valid_def Let_def run_field_def test_library_def)

lemma minimal_valid:
  "SnippetSerializer_is_valid test_library False [''code'' \<mapsto> JStr ''minimal code''] =
     Inr \<lparr>v_title = None, v_code = Some ''minimal code'', v_linenos = None,
          v_language = None, v_style = None\<rparr>"
  by (simp add: SnippetSerializer_is_valid_def Let_def run_field_def test_library_def)

lemma post_no_code:
  "dispatch test_library SnippetList (logged_in 1 ''POST'' [''title'' \<mapsto> JStr ''No Code'']) d =
     (bad_request [''code''], d)"
  by (simp add: dispatch_def check_permissions_def logged_in_def create_def no_code_invalid)

lemma delete_as_non_owner:
  "dispatch test_library (SnippetDetail 1) (logged_in 2 ''DELETE'' Map.empty) setUp =
     (permission_denied, setUp)"
  by (simp add: dispatch_def check_permissions_def logged_in_def destroy_def get_object_def
      all_setUp snippet1_eq check_object_permissions_def has_object_permission_def
      SAFE_METHODS_def)

lemma delete_list:
  "dispatch lib SnippetList (logged_in 1 ''DELETE'' Map.empty) d = (http_method_not_allowed, d)"
  by (simp add: dispatch_def check_permissions_def logged_in_def)

section \<open>Properties of the API\<close>

text \<open>
  C1. On a request for a snippet that exists, the object-level check allows exactly when
  the method is GET, HEAD or OPTIONS or the requester is the snippet's owner. So the
  detail view answers a PUT, PATCH or DELETE of anybody else with 403 and leaves the
  database as it was, and answers the GET of any client with the snippet.
\<close>

theorem owner_or_read_only:
  "find (\<lambda>s. pk s = k) (Snippet_objects_all d) = Some obj \<Longrightarrow>
     (has_object_permission req obj \<longleftrightarrow>
        request_method req = ''GET'' \<or> request_method req = ''HEAD'' \<or> request_method req = ''OPTIONS'' \<or>
        (\<exists>u. user req = Authenticated u \<and> owner obj = Some u)) \<and>
     ((request_method req = ''PUT'' \<or> request_method req = ''PATCH'' \<or> request_method req = ''DELETE'') \<and>
      (\<forall>u. user req = Authenticated u \<longrightarrow> owner obj \<noteq> Some u) \<longrightarrow>
        dispatch lib (SnippetDetail k) req d = (permission_denied, d)) \<and>
     (request_method req = ''GET'' \<longrightarrow>
        dispatch lib (SnippetDetail k) req d =
          (Response HTTP_200_OK (Data (SnippetSerializer_data d obj)), d))"
proof (intro conjI impI)
  show "has_object_permission req obj \<longleftrightarrow>
        request_method req = ''GET'' \<or> request_method req = ''HEAD'' \<or> request_method req = ''OPTIONS'' \<or>
        (\<exists>u. user req = Authenticated u \<and> owner obj = Some u)"
    by (auto simp: has_object_permission_def SAFE_METHODS_def owner_eq_iff)
next
  assume f: "find (\<lambda>s. pk s = k) (Snippet_objects_all d) = Some obj"
    and h: "(request_method req = ''PUT'' \<or> request_method req = ''PATCH'' \<or> request_method req = ''DELETE'') \<and>
      (\<forall>u. user req = Authenticated u \<longrightarrow> owner obj \<noteq> Some u)"
  then have no: "\<not> has_object_permission req obj"
    by (auto simp: has_object_permission_def SAFE_METHODS_def owner_eq_iff)
  have g: "get_object (SnippetDetail k) k req d = Inl permission_denied"
    using f no by (simp add: get_object_def check_object_permissions_SnippetDetail)
  from h show "dispatch lib (SnippetDetail k) req d = (permission_denied, d)"
    by (auto simp: dispatch_def update_def destroy_def g)
next
  assume f: "find (\<lambda>s. pk s = k) (Snippet_objects_all d) = Some obj"
    and m: "request_method req = ''GET''"
  have g: "get_object (SnippetDetail k) k req d = Inr obj"
    using f m
    by (simp add: get_object_def check_object_permissions_SnippetDetail
        has_object_permission_def SAFE_METHODS_def)
  show "dispatch lib (SnippetDetail k) req d =
          (Response HTTP_200_OK (Data (SnippetSerializer_data d obj)), d)"
    using m by (simp add: dispatch_def check_permissions_SnippetDetail SAFE_METHODS_def
        retrieve_def g)
qed

theorem owner_or_read_only_witness:
  "find (\<lambda>s. pk s = 1) (Snippet_objects_all setUp) = Some snippet1 \<and>
   \<not> has_object_permission (logged_in 2 ''DELETE'' Map.empty) snippet1 \<and>
   has_object_permission (logged_in 1 ''DELETE'' Map.empty) snippet1 \<and>
   dispatch test_library (SnippetDetail 1) (logged_in 2 ''DELETE'' Map.empty) setUp =
     (permission_denied, setUp) \<and>
   dispatch test_library (SnippetDetail 1) (anonymous ''GET'' Map.empty) setUp =
     (Response HTTP_200_OK (Data (SnippetSerializer_data setUp snippet1)), setUp)"
proof -
  have f: "find (\<lambda>s. pk s = 1) (Snippet_objects_all setUp) = Some snippet1"
    by (simp add: all_setUp snippet1_eq)
  have o: "owner snippet1 = Some 1"
    by (simp add: snippet1_eq)
  note t = owner_or_read_only [OF f]
  from f t [where req = "logged_in 2 ''DELETE'' Map.empty" and lib = test_library]
    t [where req = "logged_in 1 ''DELETE'' Map.empty" and lib = test_library]
    t [where req = "anonymous ''GET'' Map.empty" and lib = test_library]
  show ?thesis
    by (simp add: logged_in_def anonymous_def o)
qed

text \<open>
  C2, as stated, does not hold: the four conditions overlap, and a request that meets
  two of them gets the status of the check that runs first. A DELETE of a missing
  snippet without a login is answered 403 and not 404, a POST to a missing snippet's
  detail route 405 and not 404, a PUT without code to a missing snippet 404 and not 400,
  and a POST without code or a DELETE of the list without a login 403 and not 400 or 405.
\<close>

theorem status_overlap_counterexample:
  "find (\<lambda>s. pk s = 9999) (Snippet_objects_all setUp) = None \<and>
   status_code (fst (dispatch test_library (SnippetDetail 9999)
      (anonymous ''DELETE'' Map.empty) setUp)) = HTTP_403_FORBIDDEN \<and>
   status_code (fst (dispatch test_library (SnippetDetail 9999)
      (logged_in 1 ''POST'' Map.empty) setUp)) = HTTP_405_METHOD_NOT_ALLOWED \<and>
   SnippetSerializer_is_valid test_library False [''title'' \<mapsto> JStr ''No Code''] = Inl [''code''] \<and>
   status_code (fst (dispatch test_library (SnippetDetail 9999)
      (logged_in 1 ''PUT'' [''title'' \<mapsto> JStr ''No Code'']) setUp)) = HTTP_404_NOT_FOUND \<and>
   status_code (fst (dispatch test_library SnippetList
      (anonymous ''POST'' [''title'' \<mapsto> JStr ''No Code'']) setUp)) = HTTP_403_FORBIDDEN \<and>
   ''DELETE'' \<notin> set (allowed_methods SnippetList) \<and>
   status_code (fst (dispatch test_library SnippetList
      (anonymous ''DELETE'' Map.empty) setUp)) = HTTP_403_FORBIDDEN"
proof -
  have f: "find (\<lambda>s. pk s = 9999) (Snippet_objects_all setUp) = None"
    by (simp add: all_setUp snippet1_eq snippet2_eq)
  show ?thesis
    by (simp add: f no_code_invalid anonymous_def logged_in_def dispatch_def
        check_permissions_def SAFE_METHODS_def update_def get_object_def responses)
qed

text \<open>
  C2, amended. The checks run in a fixed order and the first that fails decides the
  status: a denial by the view-level permission check is answered 403; otherwise a
  method the endpoint does not support is answered 405; otherwise a key with no
  persisted record is answered 404 (by the methods that look the record up: GET, HEAD,
  PUT, PATCH and DELETE; OPTIONS looks nothing up); otherwise a denial by the object-level permission
  check is answered 403; otherwise a body that fails field validation is answered 400.
  In each case the database is left as it was.
\<close>

theorem status_by_precedence:
  "(\<not> check_permissions v req \<longrightarrow> dispatch lib v req d = (permission_denied, d)) \<and>
   (check_permissions v req \<and> request_method req \<notin> set (allowed_methods v) \<longrightarrow>
      dispatch lib v req d = (http_method_not_allowed, d)) \<and>
   (check_permissions (SnippetDetail k) req \<and>
    request_method req \<in> {''GET'', ''HEAD'', ''PUT'', ''PATCH'', ''DELETE''} \<and>
    find (\<lambda>s. pk s = k) (Snippet_objects_all d) = None \<longrightarrow>
      dispatch lib (SnippetDetail k) req d = (not_found, d)) \<and>
   (request_method req \<in> {''GET'', ''HEAD''} \<and> find (\<lambda>x. user_pk x = k) (users d) = None \<longrightarrow>
      dispatch lib (UserDetail k) req d = (not_found, d)) \<and>
   (check_permissions (SnippetDetail k) req \<and>
    request_method req \<in> {''PUT'', ''PATCH'', ''DELETE''} \<and>
    find (\<lambda>s. pk s = k) (Snippet_objects_all d) = Some obj \<and>
    \<not> has_object_permission req obj \<longrightarrow>
      dispatch lib (SnippetDetail k) req d = (permission_denied, d)) \<and>
   (check_permissions SnippetList req \<and> request_method req = ''POST'' \<and>
    SnippetSerializer_is_valid lib False (data req) = Inl errs \<longrightarrow>
      dispatch lib SnippetList req d = (bad_request errs, d)) \<and>
   (check_permissions (SnippetDetail k) req \<and> request_method req \<in> {''PUT'', ''PATCH''} \<and>
    find (\<lambda>s. pk s = k) (Snippet_objects_all d) = Some obj \<and>
    has_object_permission req obj \<and>
    SnippetSerializer_is_valid lib (request_method req = ''PATCH'') (data req) = Inl errs \<longrightarrow>
      dispatch lib (SnippetDetail k) req d = (bad_request errs, d)) \<and>
   status_code permission_denied = HTTP_403_FORBIDDEN \<and>
   status_code http_method_not_allowed = HTTP_405_METHOD_NOT_ALLOWED \<and>
   status_code not_found = HTTP_404_NOT_FOUND \<and>
   status_code (bad_request errs) = HTTP_400_BAD_REQUEST"
proof (intro conjI impI)
  assume "\<not> check_permissions v req"
  then show "dispatch lib v req d = (permission_denied, d)"
    by (simp add: dispatch_def)
next
  assume "check_permissions v req \<and> request_method req \<notin> set (allowed_methods v)"
  then show "dispatch lib v req d = (http_method_not_allowed, d)"
    by (simp add: dispatch_def handler_not_allowed)
next
  assume "check_permissions (SnippetDetail k) req \<and>
    request_method req \<in> {''GET'', ''HEAD'', ''PUT'', ''PATCH'', ''DELETE''} \<and>
    find (\<lambda>s. pk s = k) (Snippet_objects_all d) = None"
  then show "dispatch lib (SnippetDetail k) req d = (not_found, d)"
    by (auto simp: dispatch_def retrieve_def update_def destroy_def get_object_cases)
next
  assume "request_method req \<in> {''GET'', ''HEAD''} \<and> find (\<lambda>x. user_pk x = k) (users d) = None"
  then show "dispatch lib (UserDetail k) req d = (not_found, d)"
    by (auto simp: dispatch_def check_permissions_open retrieve_user_def)
next
  assume "check_permissions (SnippetDetail k) req \<and>
    request_method req \<in> {''PUT'', ''PATCH'', ''DELETE''} \<and>
    find (\<lambda>s. pk s = k) (Snippet_objects_all d) = Some obj \<and>
    \<not> has_object_permission req obj"
  then show "dispatch lib (SnippetDetail k) req d = (permission_denied, d)"
    by (auto simp: dispatch_def update_def destroy_def get_object_cases
        check_object_permissions_SnippetDetail)
next
  assume "check_permissions SnippetList req \<and> request_method req = ''POST'' \<and>
    SnippetSerializer_is_valid lib False (data req) = Inl errs"
  then show "dispatch lib SnippetList req d = (bad_request errs, d)"
    by (simp add: dispatch_def create_def)
next
  assume "check_permissions (SnippetDetail k) req \<and> request_method req \<in> {''PUT'', ''PATCH''} \<and>
    find (\<lambda>s. pk s = k) (Snippet_objects_all d) = Some obj \<and>
    has_object_permission req obj \<and>
    SnippetSerializer_is_valid lib (request_method req = ''PATCH'') (data req) = Inl errs"
  then show "dispatch lib (SnippetDetail k) req d = (bad_request errs, d)"
    by (auto simp: dispatch_def update_def get_object_cases
        check_object_permissions_SnippetDetail)
qed (simp_all add: responses)

theorem status_by_precedence_witness:
  "dispatch test_library (SnippetDetail 9999) (anonymous ''DELETE'' Map.empty) setUp =
     (permission_denied, setUp) \<and>
   dispatch test_library (SnippetDetail 9999) (logged_in 1 ''POST'' Map.empty) setUp =
     (http_method_not_allowed, setUp) \<and>
   dispatch test_library (SnippetDetail 9999)
       (logged_in 1 ''PUT'' [''title'' \<mapsto> JStr ''No Code'']) setUp = (not_found, setUp) \<and>
   dispatch test_library (UserDetail 9999) (anonymous ''GET'' Map.empty) setUp = (not_found, setUp) \<and>
   dispatch test_library (SnippetDetail 1)
       (logged_in 2 ''PUT'' [''title'' \<mapsto> JStr ''No Code'']) setUp = (permission_denied, setUp) \<and>
   dispatch test_library (SnippetDetail 1)
       (logged_in 1 ''PUT'' [''title'' \<mapsto> JStr ''No Code'']) setUp = (bad_request [''code''], setUp) \<and>
   dispatch test_library SnippetList
       (logged_in 1 ''POST'' [''title'' \<mapsto> JStr ''No Code'']) setUp = (bad_request [''code''], setUp)"
proof -
  have f: "find (\<lambda>s. pk s = 9999) (Snippet_objects_all setUp) = None"
    "find (\<lambda>s. pk s = 1) (Snippet_objects_all setUp) = Some snippet1"
    by (simp_all add: all_setUp snippet1_eq snippet2_eq)
  have g: "find (\<lambda>x. user_pk x = 9999) (users setUp) = None"
    by (simp add: setUp_eq)
  have o: "owner snippet1 = Some 1"
    by (simp add: snippet1_eq)
  note t = status_by_precedence [where lib = test_library and d = setUp]
  from t [where v = "SnippetDetail 9999" and req = "anonymous ''DELETE'' Map.empty"]
    t [where v = "SnippetDetail 9999" and req = "logged_in 1 ''POST'' Map.empty"]
    t [where k = 9999 and req = "logged_in 1 ''PUT'' [''title'' \<mapsto> JStr ''No Code'']"]
    t [where k = 9999 and req = "anonymous ''GET'' Map.empty"]
    t [where k = 1 and obj = snippet1 and req = "logged_in 2 ''PUT'' [''title'' \<mapsto> JStr ''No Code'']"]
    t [where k = 1 and obj = snippet1 and errs = "[''code'']"
      and req = "logged_in 1 ''PUT'' [''title'' \<mapsto> JStr ''No Code'']"]
    t [where errs = "[''code'']" and req = "logged_in 1 ''POST'' [''title'' \<mapsto> JStr ''No Code'']"]
  show ?thesis
    using f g o no_code_invalid
    by (simp add: anonymous_def logged_in_def check_permissions_def SAFE_METHODS_def
        has_object_permission_def)
qed

text \<open>
  C3. The default queryset, the body of the snippet list endpoint and the snippets of a
  user are ordered by creation timestamp, ascending, in the database that any sequence
  of requests leaves; the queryset holds exactly the persisted rows.
\<close>

theorem snippets_ordered_by_created:
  "sorted (map created (Snippet_objects_all (serve lib rs d))) \<and>
   set (Snippet_objects_all (serve lib rs d)) = set (snippets (serve lib rs d)) \<and>
   length (Snippet_objects_all (serve lib rs d)) = length (snippets (serve lib rs d)) \<and>
   sorted (map created (user_snippets (serve lib rs d) u)) \<and>
   dispatch lib SnippetList (req\<lparr>request_method := ''GET''\<rparr>) (serve lib rs d) =
     (Response HTTP_200_OK
        (DataList (map (SnippetSerializer_data (serve lib rs d))
           (Snippet_objects_all (serve lib rs d)))), serve lib rs d)"
  by (simp add: Snippet_objects_all_def user_snippets_def sorted_filter dispatch_def
      check_permissions_SnippetList SAFE_METHODS_def list_snippets_def)

theorem snippets_ordered_by_created_witness:
  "sorted (map created (Snippet_objects_all (serve test_library
      [(SnippetList, \<lparr>request_method = ''POST'', user = Authenticated 2,
          data = [''code'' \<mapsto> JStr ''first''], now = 0\<rparr>),
       (SnippetDetail 2, logged_in 2 ''DELETE'' Map.empty)] setUp))) \<and>
   map pk (snippets (serve test_library
      [(SnippetList, \<lparr>request_method = ''POST'', user = Authenticated 2,
          data = [''code'' \<mapsto> JStr ''first''], now = 0\<rparr>),
       (SnippetDetail 2, logged_in 2 ''DELETE'' Map.empty)] setUp)) = [1, 3] \<and>
   map pk (Snippet_objects_all (serve test_library
      [(SnippetList, \<lparr>request_method = ''POST'', user = Authenticated 2,
          data = [''code'' \<mapsto> JStr ''first''], now = 0\<rparr>),
       (SnippetDetail 2, logged_in 2 ''DELETE'' Map.empty)] setUp)) = [3, 1]"
proof -
  let ?post = "\<lparr>request_method = ''POST'', user = Authenticated 2,
          data = [''code'' \<mapsto> JStr ''first''], now = 0\<rparr>"
  let ?s3 = "\<lparr>pk = 3, created = 0, title = [], code = ''first'', linenos = False,
      language = ''python'', style = ''friendly'', owner = Some 2,
      highlighted = ''<html>first</html>''\<rparr>"
  let ?d1 = "\<lparr>snippets = [snippet1, snippet2, ?s3], users = users setUp, next_pk = 4\<rparr>"
  have v: "SnippetSerializer_is_valid test_library False [''code'' \<mapsto> JStr ''first''] =
      Inr \<lparr>v_title = None, v_code = Some ''first'', v_linenos = None,
           v_language = None, v_style = None\<rparr>"
    by (simp add: SnippetSerializer_is_valid_def Let_def run_field_def test_library_def)
  have c: "Snippet_objects_create test_library 0
      \<lparr>v_title = None, v_code = Some ''first'', v_linenos = None,
       v_language = None, v_style = None\<rparr> (Some 2) setUp = (?s3, ?d1)"
    by (simp add: Snippet_objects_create_def Let_def render_def test_library_def setUp_eq)
  have a: "snd (dispatch test_library SnippetList ?post setUp) = ?d1"
    by (simp add: dispatch_def check_permissions_def create_def v perform_create_def
        SnippetSerializer_create_def c)
  have k: "pk snippet1 = 1" "pk snippet2 = 2" "owner snippet2 = Some 2"
    by (simp_all add: snippet1_eq snippet2_eq)
  have l: "Snippet_objects_all ?d1 = [?s3, snippet1, snippet2]"
    by (simp add: Snippet_objects_all_def snippet1_eq snippet2_eq)
  have b: "snd (dispatch test_library (SnippetDetail 2) (logged_in 2 ''DELETE'' Map.empty) ?d1) =
      \<lparr>snippets = [snippet1, ?s3], users = users setUp, next_pk = 4\<rparr>"
    by (simp add: dispatch_def check_permissions_def logged_in_def destroy_def get_object_def l
        check_object_permissions_def has_object_permission_def SAFE_METHODS_def
        Snippet_delete_def k)
  have e: "serve test_library
      [(SnippetList, ?post), (SnippetDetail 2, logged_in 2 ''DELETE'' Map.empty)] setUp =
      \<lparr>snippets = [snippet1, ?s3], users = users setUp, next_pk = 4\<rparr>"
    by (simp add: a b)
  have m: "map pk (Snippet_objects_all \<lparr>snippets = [snippet1, ?s3], users = users setUp,
      next_pk = 4\<rparr>) = [3, 1]"
    by (simp add: Snippet_objects_all_def snippet1_eq)
  from snippets_ordered_by_created [of test_library
      "[(SnippetList, ?post), (SnippetDetail 2, logged_in 2 ''DELETE'' Map.empty)]" setUp]
  show ?thesis
    unfolding e using m by (simp add: snippet1_eq)
qed

text \<open>
  C4, as stated, does not hold: no client, logged in or not, gets a POST, PUT, PATCH
  or DELETE on the user list or on a user's detail route answered with a success status.
\<close>

theorem user_write_counterexample:
  "\<not> (\<exists>lib req d k.
        (request_method req = ''POST'' \<or> request_method req = ''PUT'' \<or>
         request_method req = ''PATCH'' \<or> request_method req = ''DELETE'') \<and>
        (status_code (fst (dispatch lib UserList req d)) < 400 \<or>
         status_code (fst (dispatch lib (UserDetail k) req d)) < 400))"
proof
  assume "\<exists>lib req d k.
        (request_method req = ''POST'' \<or> request_method req = ''PUT'' \<or>
         request_method req = ''PATCH'' \<or> request_method req = ''DELETE'') \<and>
        (status_code (fst (dispatch lib UserList req d)) < 400 \<or>
         status_code (fst (dispatch lib (UserDetail k) req d)) < 400)"
  then obtain lib req d k where
    m: "request_method req \<in> {''POST'', ''PUT'', ''PATCH'', ''DELETE''}"
    and s: "status_code (fst (dispatch lib UserList req d)) < 400 \<or>
         status_code (fst (dispatch lib (UserDetail k) req d)) < 400"
    by auto
  from s show False
    unfolding user_views_405 [OF m] by (simp add: responses)
qed

text \<open>
  C4, amended. The HTTP surface exposes create, read, update and delete over snippets, and
  read only (list and retrieve) over users: every POST, PUT, PATCH or DELETE on a user
  endpoint is answered 405 and changes nothing, a GET lists the users or retrieves one,
  and on the snippet endpoints a logged-in user creates a snippet with a valid POST and
  updates or deletes a snippet of their own.
\<close>

theorem user_endpoints_read_only:
  "(request_method req \<in> {''POST'', ''PUT'', ''PATCH'', ''DELETE''} \<longrightarrow>
      dispatch lib UserList req d = (http_method_not_allowed, d) \<and>
      dispatch lib (UserDetail k) req d = (http_method_not_allowed, d)) \<and>
   (request_method req = ''GET'' \<longrightarrow>
      dispatch lib UserList req d =
        (Response HTTP_200_OK (DataList (map (UserSerializer_data d) (users d))), d)) \<and>
   (request_method req = ''GET'' \<and> find (\<lambda>x. user_pk x = k) (users d) = Some x \<longrightarrow>
      dispatch lib (UserDetail k) req d = (Response HTTP_200_OK (Data (UserSerializer_data d x)), d)) \<and>
   (user req = Authenticated u \<and> request_method req = ''POST'' \<and>
    SnippetSerializer_is_valid lib False (data req) = Inr vd \<longrightarrow>
      status_code (fst (dispatch lib SnippetList req d)) = HTTP_201_CREATED \<and>
      snd (dispatch lib SnippetList req d) =
        snd (SnippetSerializer_create lib (now req) vd (Some u) d)) \<and>
   (user req = Authenticated u \<and> request_method req = ''PUT'' \<and>
    find (\<lambda>s. pk s = k) (Snippet_objects_all d) = Some obj \<and> owner obj = Some u \<and>
    SnippetSerializer_is_valid lib False (data req) = Inr vd \<longrightarrow>
      status_code (fst (dispatch lib (SnippetDetail k) req d)) = HTTP_200_OK \<and>
      snd (dispatch lib (SnippetDetail k) req d) = snd (SnippetSerializer_update lib obj vd d)) \<and>
   (user req = Authenticated u \<and> request_method req = ''DELETE'' \<and>
    find (\<lambda>s. pk s = k) (Snippet_objects_all d) = Some obj \<and> owner obj = Some u \<longrightarrow>
      dispatch lib (SnippetDetail k) req d =
        (Response HTTP_204_NO_CONTENT NoBody, Snippet_delete obj d))"
proof (intro conjI impI)
  assume "request_method req \<in> {''POST'', ''PUT'', ''PATCH'', ''DELETE''}"
  then show "dispatch lib UserList req d = (http_method_not_allowed, d)"
    "dispatch lib (UserDetail k) req d = (http_method_not_allowed, d)"
    by (rule user_views_405)+
next
  assume "request_method req = ''GET''"
  then show "dispatch lib UserList req d =
        (Response HTTP_200_OK (DataList (map (UserSerializer_data d) (users d))), d)"
    by (simp add: dispatch_def check_permissions_open list_users_def)
next
  assume "request_method req = ''GET'' \<and> find (\<lambda>x. user_pk x = k) (users d) = Some x"
  then show "dispatch lib (UserDetail k) req d =
      (Response HTTP_200_OK (Data (UserSerializer_data d x)), d)"
    by (simp add: dispatch_def check_permissions_open retrieve_user_def)
next
  assume a: "user req = Authenticated u \<and> request_method req = ''POST'' \<and>
    SnippetSerializer_is_valid lib False (data req) = Inr vd"
  then have "dispatch lib SnippetList req d =
      (case SnippetSerializer_create lib (now req) vd (Some u) d of
         (s, d') \<Rightarrow> (Response HTTP_201_CREATED (Data (SnippetSerializer_data d' s)), d'))"
    by (simp add: dispatch_def check_permissions_SnippetList create_def perform_create_def)
  then show "status_code (fst (dispatch lib SnippetList req d)) = HTTP_201_CREATED"
    "snd (dispatch lib SnippetList req d) =
        snd (SnippetSerializer_create lib (now req) vd (Some u) d)"
    by (simp_all add: case_prod_beta responses)
next
  assume a: "user req = Authenticated u \<and> request_method req = ''PUT'' \<and>
    find (\<lambda>s. pk s = k) (Snippet_objects_all d) = Some obj \<and> owner obj = Some u \<and>
    SnippetSerializer_is_valid lib False (data req) = Inr vd"
  then have g: "get_object (SnippetDetail k) k req d = Inr obj"
    by (simp add: get_object_owner)
  from a have "dispatch lib (SnippetDetail k) req d =
      (case SnippetSerializer_update lib obj vd d of
         (s, d') \<Rightarrow> (Response HTTP_200_OK (Data (SnippetSerializer_data d' s)), d'))"
    by (simp add: dispatch_def check_permissions_SnippetDetail update_def g)
  then show "status_code (fst (dispatch lib (SnippetDetail k) req d)) = HTTP_200_OK"
    "snd (dispatch lib (SnippetDetail k) req d) = snd (SnippetSerializer_update lib obj vd d)"
    by (simp_all add: case_prod_beta responses)
next
  assume a: "user req = Authenticated u \<and> request_method req = ''DELETE'' \<and>
    find (\<lambda>s. pk s = k) (Snippet_objects_all d) = Some obj \<and> owner obj = Some u"
  then have g: "get_object (SnippetDetail k) k req d = Inr obj"
    by (simp add: get_object_owner)
  from a show "dispatch lib (SnippetDetail k) req d =
        (Response HTTP_204_NO_CONTENT NoBody, Snippet_delete obj d)"
    by (simp add: dispatch_def check_permissions_SnippetDetail destroy_def g)
qed

theorem user_endpoints_read_only_witness:
  "dispatch test_library UserList (anonymous ''POST'' [''username'' \<mapsto> JStr ''hacker'']) setUp =
     (http_method_not_allowed, setUp) \<and>
   dispatch test_library (UserDetail 1) (logged_in 1 ''PUT'' [''username'' \<mapsto> JStr ''hacked'']) setUp =
     (http_method_not_allowed, setUp) \<and>
   dispatch test_library (UserDetail 1) (logged_in 1 ''DELETE'' Map.empty) setUp =
     (http_method_not_allowed, setUp) \<and>
   dispatch test_library (UserDetail 2) (anonymous ''GET'' Map.empty) setUp =
     (Response HTTP_200_OK (Data [(''id'', JNum 2), (''username'', JStr ''user2''),
        (''snippets'', JList [JNum 2])]), setUp) \<and>
   dispatch test_library (SnippetDetail 1) (logged_in 1 ''DELETE'' Map.empty) setUp =
     (Response HTTP_204_NO_CONTENT NoBody, Snippet_delete snippet1 setUp) \<and>
   Snippet_objects_all (Snippet_delete snippet1 setUp) = [snippet2] \<and>
   status_code (fst (dispatch test_library UserList (anonymous ''GET'' Map.empty) setUp)) =
     HTTP_200_OK \<and>
   status_code (fst (dispatch test_library SnippetList
      (logged_in 2 ''POST'' [''code'' \<mapsto> JStr ''minimal code'']) setUp)) = HTTP_201_CREATED \<and>
   status_code (fst (dispatch test_library (SnippetDetail 2)
      (logged_in 2 ''PUT'' [''code'' \<mapsto> JStr ''minimal code'']) setUp)) = HTTP_200_OK"
proof -
  let ?vd = "\<lparr>v_title = None, v_code = Some ''minimal code'', v_linenos = None,
      v_language = None, v_style = None\<rparr>"
  have f2: "find (\<lambda>s. pk s = 2) (Snippet_objects_all setUp) = Some snippet2"
    by (simp add: all_setUp snippet1_eq snippet2_eq)
  have o2: "owner snippet2 = Some 2"
    by (simp add: snippet2_eq)
  have w: "SnippetSerializer_is_valid test_library False
      (data (logged_in 2 m [''code'' \<mapsto> JStr ''minimal code''])) = Inr ?vd" for m
    by (simp add: logged_in_def minimal_valid)
  have f: "find (\<lambda>s. pk s = 1) (Snippet_objects_all setUp) = Some snippet1"
    by (simp add: all_setUp snippet1_eq)
  have o: "owner snippet1 = Some 1"
    by (simp add: snippet1_eq)
  have x: "find (\<lambda>x. user_pk x = 2) (users setUp) = Some \<lparr>user_pk = 2, username = ''user2''\<rparr>"
    by (simp add: setUp_eq)
  have r: "UserSerializer_data setUp \<lparr>user_pk = 2, username = ''user2''\<rparr> =
      [(''id'', JNum 2), (''username'', JStr ''user2''), (''snippets'', JList [JNum 2])]"
    by (simp add: UserSerializer_data_def user_snippets_def all_setUp snippet1_eq snippet2_eq)
  have l: "Snippet_objects_all (Snippet_delete snippet1 setUp) = [snippet2]"
    by (simp add: Snippet_objects_all_def Snippet_delete_def setUp_eq snippet1_eq snippet2_eq)
  note t = user_endpoints_read_only [where lib = test_library and d = setUp]
  from t [where req = "anonymous ''POST'' [''username'' \<mapsto> JStr ''hacker'']"]
    t [where req = "logged_in 1 ''PUT'' [''username'' \<mapsto> JStr ''hacked'']" and k = 1]
    t [where req = "logged_in 1 ''DELETE'' Map.empty" and k = 1 and u = 1 and obj = snippet1]
    t [where req = "anonymous ''GET'' Map.empty" and k = 2
      and x = "\<lparr>user_pk = 2, username = ''user2''\<rparr>"]
  have a: "dispatch test_library UserList
      (anonymous ''POST'' [''username'' \<mapsto> JStr ''hacker'']) setUp =
     (http_method_not_allowed, setUp) \<and>
   dispatch test_library (UserDetail 1) (logged_in 1 ''PUT'' [''username'' \<mapsto> JStr ''hacked'']) setUp =
     (http_method_not_allowed, setUp) \<and>
   dispatch test_library (UserDetail 1) (logged_in 1 ''DELETE'' Map.empty) setUp =
     (http_method_not_allowed, setUp) \<and>
   dispatch test_library (UserDetail 2) (anonymous ''GET'' Map.empty) setUp =
     (Response HTTP_200_OK (Data [(''id'', JNum 2), (''username'', JStr ''user2''),
        (''snippets'', JList [JNum 2])]), setUp) \<and>
   dispatch test_library (SnippetDetail 1) (logged_in 1 ''DELETE'' Map.empty) setUp =
     (Response HTTP_204_NO_CONTENT NoBody, Snippet_delete snippet1 setUp) \<and>
   status_code (fst (dispatch test_library UserList (anonymous ''GET'' Map.empty) setUp)) =
     HTTP_200_OK"
    using f o x r by (simp add: anonymous_def logged_in_def responses)
  from t [where req = "logged_in 2 ''POST'' [''code'' \<mapsto> JStr ''minimal code'']"
      and u = 2 and vd = ?vd]
    t [where req = "logged_in 2 ''PUT'' [''code'' \<mapsto> JStr ''minimal code'']"
      and u = 2 and vd = ?vd and k = 2 and obj = snippet2]
  have b: "status_code (fst (dispatch test_library SnippetList
      (logged_in 2 ''POST'' [''code'' \<mapsto> JStr ''minimal code'']) setUp)) = HTTP_201_CREATED \<and>
   status_code (fst (dispatch test_library (SnippetDetail 2)
      (logged_in 2 ''PUT'' [''code'' \<mapsto> JStr ''minimal code'']) setUp)) = HTTP_200_OK"
    using w f2 o2 by (simp add: logged_in_def)
  show ?thesis
    using a b l by simp
qed

text \<open>
  C5. Every persisted snippet's highlighted field is the rendering of its code, language
  and style, in the database that any sequence of requests leaves of one whose rows were
  saved; so two snippets that agree on the three have the same highlighted value. A
  \<^verbatim>\<open>highlighted\<close> key in a request's payload changes nothing, and the highlight endpoint
  answers a GET with the stored value.
\<close>

theorem highlighted_is_rendered:
  assumes "\<forall>s\<in>set (snippets d0). highlighted s = highlight lib (code s) (language s) (style s)"
    and "d = serve lib rs d0"
  shows "(\<forall>s\<in>set (snippets d). highlighted s = highlight lib (code s) (language s) (style s)) \<and>
     (\<forall>s\<in>set (snippets d). \<forall>s'\<in>set (snippets d).
        code s = code s' \<and> language s = language s' \<and> style s = style s' \<longrightarrow>
          highlighted s = highlighted s') \<and>
     dispatch lib v (req\<lparr>data := (data req)(''highlighted'' := x)\<rparr>) d = dispatch lib v req d \<and>
     (find (\<lambda>s. pk s = k) (Snippet_objects_all d) = Some obj \<and> request_method req = ''GET'' \<longrightarrow>
        dispatch lib (SnippetHighlight k) req d =
          (Response HTTP_200_OK (Html (highlighted obj)), d))"
proof -
  have inv: "\<forall>s\<in>set (snippets d). highlighted s = highlight lib (code s) (language s) (style s)"
    unfolding assms(2) using assms(1) by (rule serve_rendered)
  have same: "\<forall>s\<in>set (snippets d). \<forall>s'\<in>set (snippets d).
        code s = code s' \<and> language s = language s' \<and> style s = style s' \<longrightarrow>
          highlighted s = highlighted s'"
    using inv by simp
  have ign: "dispatch lib v (req\<lparr>data := (data req)(''highlighted'' := x)\<rparr>) d =
      dispatch lib v req d"
    by (rule dispatch_data_cong) simp_all
  show ?thesis
    using inv same ign highlight_get [of k d obj req lib] by blast
qed

theorem highlighted_is_rendered_witness:
  "snippets setUp_users = [] \<and>
   map highlighted (snippets (serve test_library
      [(SnippetList, logged_in 2 ''POST''
          [''code'' \<mapsto> JStr ''x'', ''highlighted'' \<mapsto> JStr ''<b>''])] setUp_users)) =
     [''<html>x</html>''] \<and>
   fst (dispatch test_library (SnippetHighlight 1) (anonymous ''GET'' Map.empty)
      (serve test_library
        [(SnippetList, logged_in 2 ''POST''
            [''code'' \<mapsto> JStr ''x'', ''highlighted'' \<mapsto> JStr ''<b>''])] setUp_users)) =
     Response HTTP_200_OK (Html ''<html>x</html>'')"
proof -
  let ?rs = "[(SnippetList, logged_in 2 ''POST''
      [''code'' \<mapsto> JStr ''x'', ''highlighted'' \<mapsto> JStr ''<b>''])]"
  let ?s = "\<lparr>pk = 1, created = 3, title = [], code = ''x'', linenos = False,
      language = ''python'', style = ''friendly'', owner = Some 2,
      highlighted = ''<html>x</html>''\<rparr>"
  let ?d = "\<lparr>snippets = [?s], users = users setUp_users, next_pk = 2\<rparr>"
  have h: "\<forall>s\<in>set (snippets setUp_users).
      highlighted s = highlight test_library (code s) (language s) (style s)"
    by (simp add: setUp_users_def)
  have v: "SnippetSerializer_is_valid test_library False
      [''code'' \<mapsto> JStr ''x'', ''highlighted'' \<mapsto> JStr ''<b>''] =
      Inr \<lparr>v_title = None, v_code = Some ''x'', v_linenos = None,
           v_language = None, v_style = None\<rparr>"
    by (simp add: SnippetSerializer_is_valid_def Let_def run_field_def test_library_def)
  have c: "Snippet_objects_create test_library 3
      \<lparr>v_title = None, v_code = Some ''x'', v_linenos = None,
       v_language = None, v_style = None\<rparr> (Some 2) setUp_users = (?s, ?d)"
    by (simp add: Snippet_objects_create_def Let_def render_def test_library_def setUp_users_def)
  have e: "?d = serve test_library ?rs setUp_users"
    by (simp add: dispatch_def check_permissions_def logged_in_def create_def v
        perform_create_def SnippetSerializer_create_def c)
  have f: "find (\<lambda>s. pk s = 1) (Snippet_objects_all ?d) = Some ?s"
    by (simp add: Snippet_objects_all_def)
  have g: "request_method (anonymous ''GET'' Map.empty) = ''GET''"
    by (simp add: anonymous_def)
  note t = highlighted_is_rendered [OF h e, where k = 1 and obj = ?s
      and req = "anonymous ''GET'' Map.empty"]
  from t [THEN conjunct2, THEN conjunct2, THEN conjunct2] f g
  have "dispatch test_library (SnippetHighlight 1) (anonymous ''GET'' Map.empty) ?d =
      (Response HTTP_200_OK (Html ''<html>x</html>''), ?d)"
    by simp
  then show ?thesis
    unfolding e [symmetric] by (simp add: setUp_users_def)
qed

text \<open>What a cascading delete leaves of the snippet table.\<close>

lemma pk_gone:
  assumes "distinct (map pk (snippets d))" and "s \<in> set (snippets d)" and "owner s = Some u"
  shows "find (\<lambda>x. pk x = pk s) (Snippet_objects_all (User_delete u d)) = None"
proof -
  have inj: "inj_on pk (set (snippets d))"
    using assms(1) by (simp add: distinct_map)
  have "x \<in> set (snippets d) \<Longrightarrow> owner x \<noteq> Some u \<Longrightarrow> pk x \<noteq> pk s" for x
  proof
    assume x: "x \<in> set (snippets d)" and o: "owner x \<noteq> Some u" and e: "pk x = pk s"
    from inj e x assms(2) have "x = s"
      by (rule inj_onD)
    with o assms(3) show False
      by simp
  qed
  then show ?thesis
    by (auto simp: find_None_iff Snippet_objects_all_def User_delete_def)
qed

lemma count_after_delete:
  "Snippet_objects_count (User_delete u d) + length (filter (\<lambda>s. owner s = Some u) (snippets d)) =
   Snippet_objects_count d"
proof -
  have "length (filter (\<lambda>s. owner s = Some u) (snippets d)) +
      length (filter (\<lambda>s. \<not> owner s = Some u) (snippets d)) = length (snippets d)"
    by (rule sum_length_filter_compl)
  then show ?thesis
    by (simp add: Snippet_objects_count_def Snippet_objects_all_def User_delete_def)
qed

text \<open>
  C6. Deleting a user deletes the user's snippets: the snippet table keeps exactly the
  rows that the user did not own, so the count drops by the number of rows the user
  owned; where identifiers are unique, no row with the identifier of a snippet the user
  owned is left in the queryset and the count is strictly smaller. A snippet the user
  owned is no longer persisted, no snippet that remains has the user as owner, the
  user's row is gone, and the snippets of everybody else remain.
\<close>

theorem user_delete_cascades:
  "snippets (User_delete u d) = filter (\<lambda>s. owner s \<noteq> Some u) (snippets d) \<and>
   users (User_delete u d) = filter (\<lambda>x. user_pk x \<noteq> u) (users d) \<and>
   Snippet_objects_count (User_delete u d) +
     length (filter (\<lambda>s. owner s = Some u) (snippets d)) = Snippet_objects_count d \<and>
   (distinct (map pk (snippets d)) \<and> s \<in> set (snippets d) \<and> owner s = Some u \<longrightarrow>
      find (\<lambda>x. pk x = pk s) (Snippet_objects_all (User_delete u d)) = None \<and>
      Snippet_objects_count (User_delete u d) < Snippet_objects_count d) \<and>
   (s \<in> set (snippets d) \<and> owner s = Some u \<longrightarrow> s \<notin> set (snippets (User_delete u d))) \<and>
   (\<forall>s\<in>set (Snippet_objects_all (User_delete u d)). owner s \<noteq> Some u) \<and>
   user_snippets (User_delete u d) u = [] \<and>
   find (\<lambda>x. user_pk x = u) (users (User_delete u d)) = None \<and>
   (\<forall>s\<in>set (snippets d). owner s \<noteq> Some u \<longrightarrow> s \<in> set (snippets (User_delete u d)))"
proof (intro conjI impI)
  show "snippets (User_delete u d) = filter (\<lambda>s. owner s \<noteq> Some u) (snippets d)"
    "users (User_delete u d) = filter (\<lambda>x. user_pk x \<noteq> u) (users d)"
    by (simp_all add: User_delete_def)
  show c: "Snippet_objects_count (User_delete u d) +
     length (filter (\<lambda>s. owner s = Some u) (snippets d)) = Snippet_objects_count d"
    by (rule count_after_delete)
  show "s \<in> set (snippets d) \<and> owner s = Some u \<Longrightarrow> s \<notin> set (snippets (User_delete u d))"
    by (simp add: User_delete_def)
  show "\<forall>s\<in>set (Snippet_objects_all (User_delete u d)). owner s \<noteq> Some u"
    by (simp add: User_delete_def Snippet_objects_all_def)
  show "user_snippets (User_delete u d) u = []"
    by (simp add: User_delete_def Snippet_objects_all_def user_snippets_def filter_empty_conv)
  show "find (\<lambda>x. user_pk x = u) (users (User_delete u d)) = None"
    by (simp add: User_delete_def find_None_iff)
  show "\<forall>s\<in>set (snippets d). owner s \<noteq> Some u \<longrightarrow> s \<in> set (snippets (User_delete u d))"
    by (simp add: User_delete_def)
  assume a: "distinct (map pk (snippets d)) \<and> s \<in> set (snippets d) \<and> owner s = Some u"
  then show "find (\<lambda>x. pk x = pk s) (Snippet_objects_all (User_delete u d)) = None"
    by (simp add: pk_gone)
  from a have "filter (\<lambda>s. owner s = Some u) (snippets d) \<noteq> []"
    by (auto simp: filter_empty_conv)
  then have "0 < length (filter (\<lambda>s. owner s = Some u) (snippets d))"
    by simp
  with c show "Snippet_objects_count (User_delete u d) < Snippet_objects_count d"
    by linarith
qed

theorem user_delete_cascades_witness:
  "distinct (map pk (snippets setUp)) \<and>
   snippet1 \<in> set (snippets setUp) \<and> owner snippet1 = Some 1 \<and>
   snippet1 \<notin> set (snippets (User_delete 1 setUp)) \<and>
   find (\<lambda>x. pk x = pk snippet1) (Snippet_objects_all (User_delete 1 setUp)) = None \<and>
   Snippet_objects_all (User_delete 1 setUp) = [snippet2] \<and>
   Snippet_objects_count setUp = 2 \<and>
   Snippet_objects_count (User_delete 1 setUp) = 1"
proof -
  have p: "distinct (map pk (snippets setUp))"
    by (simp add: setUp_eq snippet1_eq snippet2_eq)
  have a: "snippet1 \<in> set (snippets setUp)"
    by (simp add: setUp_eq)
  have o: "owner snippet1 = Some 1"
    by (simp add: snippet1_eq)
  have l: "Snippet_objects_all (User_delete 1 setUp) = [snippet2]"
    by (simp add: Snippet_objects_all_def User_delete_def setUp_eq snippet1_eq snippet2_eq)
  have n: "Snippet_objects_count setUp = 2"
    by (simp add: Snippet_objects_count_def all_setUp)
  note t = user_delete_cascades [of 1 setUp snippet1]
  from t [THEN conjunct2, THEN conjunct2, THEN conjunct2, THEN conjunct1] p a o
  have f: "find (\<lambda>x. pk x = pk snippet1) (Snippet_objects_all (User_delete 1 setUp)) = None"
    by simp
  from t [THEN conjunct2, THEN conjunct2, THEN conjunct2, THEN conjunct2, THEN conjunct1] a o
  have g: "snippet1 \<notin> set (snippets (User_delete 1 setUp))"
    by simp
  show ?thesis
    using p a o l n f g by (simp add: Snippet_objects_count_def)
qed

text \<open>
  C7. A snippet created from a payload that holds only \<^verbatim>\<open>code\<close> has an empty title, no
  line numbers, language "python" and style "friendly", whether the serializer creates
  it or a POST to the list endpoint does; a payload with no \<^verbatim>\<open>code\<close> fails validation
  with an error on that field, and the create handler answers it 400 and stores nothing.
\<close>

theorem snippet_defaults:
  "(dom p = {''code''} \<and> SnippetSerializer_is_valid lib False p = Inr vd \<longrightarrow>
      title (fst (SnippetSerializer_create lib t vd own d)) = [] \<and>
      \<not> linenos (fst (SnippetSerializer_create lib t vd own d)) \<and>
      language (fst (SnippetSerializer_create lib t vd own d)) = ''python'' \<and>
      style (fst (SnippetSerializer_create lib t vd own d)) = ''friendly'' \<and>
      snippets (snd (SnippetSerializer_create lib t vd own d)) =
        snippets d @ [fst (SnippetSerializer_create lib t vd own d)]) \<and>
   (dom (data req) = {''code''} \<and> request_method req = ''POST'' \<and>
    status_code (fst (dispatch lib SnippetList req d)) = HTTP_201_CREATED \<longrightarrow>
      (\<exists>s. snippets (snd (dispatch lib SnippetList req d)) = snippets d @ [s] \<and>
           title s = [] \<and> \<not> linenos s \<and> language s = ''python'' \<and> style s = ''friendly'')) \<and>
   (p ''code'' = None \<longrightarrow>
      (\<exists>errs. SnippetSerializer_is_valid lib False p = Inl errs \<and> ''code'' \<in> set errs)) \<and>
   (data req ''code'' = None \<longrightarrow>
      status_code (fst (create lib req d)) = HTTP_400_BAD_REQUEST \<and> snd (create lib req d) = d)"
proof (intro conjI impI)
  assume a: "dom p = {''code''} \<and> SnippetSerializer_is_valid lib False p = Inr vd"
  then have n: "v_title vd = None \<and> v_linenos vd = None \<and> v_language vd = None \<and>
      v_style vd = None"
    using only_code_validated [of p lib False vd] by simp
  from n create_defaults [of vd lib t own d]
  show "title (fst (SnippetSerializer_create lib t vd own d)) = []"
    "\<not> linenos (fst (SnippetSerializer_create lib t vd own d))"
    "language (fst (SnippetSerializer_create lib t vd own d)) = ''python''"
    "style (fst (SnippetSerializer_create lib t vd own d)) = ''friendly''"
    by (simp_all add: SnippetSerializer_create_def)
  show "snippets (snd (SnippetSerializer_create lib t vd own d)) =
        snippets d @ [fst (SnippetSerializer_create lib t vd own d)]"
    by (simp add: SnippetSerializer_create_def Snippet_objects_create_def Let_def)
next
  assume "dom (data req) = {''code''} \<and> request_method req = ''POST'' \<and>
    status_code (fst (dispatch lib SnippetList req d)) = HTTP_201_CREATED"
  then show "\<exists>s. snippets (snd (dispatch lib SnippetList req d)) = snippets d @ [s] \<and>
           title s = [] \<and> \<not> linenos s \<and> language s = ''python'' \<and> style s = ''friendly''"
    using minimal_post_defaults [of req lib d] by simp
next
  assume "p ''code'' = None"
  then show "\<exists>errs. SnippetSerializer_is_valid lib False p = Inl errs \<and> ''code'' \<in> set errs"
    by (rule missing_code_invalid)
next
  assume "data req ''code'' = None"
  then obtain errs where "SnippetSerializer_is_valid lib False (data req) = Inl errs"
    using missing_code_invalid [of "data req" lib] by auto
  then show "status_code (fst (create lib req d)) = HTTP_400_BAD_REQUEST"
    "snd (create lib req d) = d"
    by (simp_all add: create_def responses)
qed

theorem snippet_defaults_witness:
  "dom [''code'' \<mapsto> JStr ''minimal code''] = {''code''} \<and>
   title (fst (SnippetSerializer_create test_library 3
      \<lparr>v_title = None, v_code = Some ''minimal code'', v_linenos = None,
       v_language = None, v_style = None\<rparr> None setUp)) = [] \<and>
   \<not> linenos (fst (SnippetSerializer_create test_library 3
      \<lparr>v_title = None, v_code = Some ''minimal code'', v_linenos = None,
       v_language = None, v_style = None\<rparr> None setUp)) \<and>
   language (fst (SnippetSerializer_create test_library 3
      \<lparr>v_title = None, v_code = Some ''minimal code'', v_linenos = None,
       v_language = None, v_style = None\<rparr> None setUp)) = ''python'' \<and>
   style (fst (SnippetSerializer_create test_library 3
      \<lparr>v_title = None, v_code = Some ''minimal code'', v_linenos = None,
       v_language = None, v_style = None\<rparr> None setUp)) = ''friendly'' \<and>
   status_code (fst (create test_library (logged_in 2 ''POST'' [''title'' \<mapsto> JStr ''No Code''])
      setUp)) = HTTP_400_BAD_REQUEST \<and>
   status_code (fst (dispatch test_library SnippetList
      (logged_in 2 ''POST'' [''code'' \<mapsto> JStr ''minimal code'']) setUp)) = HTTP_201_CREATED \<and>
   map title (snippets (snd (dispatch test_library SnippetList
      (logged_in 2 ''POST'' [''code'' \<mapsto> JStr ''minimal code'']) setUp))) =
     [''First Snippet'', ''Second Snippet'', []] \<and>
   map style (snippets (snd (dispatch test_library SnippetList
      (logged_in 2 ''POST'' [''code'' \<mapsto> JStr ''minimal code'']) setUp))) =
     [''friendly'', ''friendly'', ''friendly'']"
proof -
  let ?post = "logged_in 2 ''POST'' [''code'' \<mapsto> JStr ''minimal code'']"
  have d: "dom [''code'' \<mapsto> JStr ''minimal code''] = {''code''}"
    by simp
  have q: "data (logged_in 2 ''POST'' [''title'' \<mapsto> JStr ''No Code'']) ''code'' = None"
    by (simp add: logged_in_def)
  have m: "dom (data ?post) = {''code''}" "request_method ?post = ''POST''"
    by (simp_all add: logged_in_def)
  have c: "Snippet_objects_create test_library 3
      \<lparr>v_title = None, v_code = Some ''minimal code'', v_linenos = None,
       v_language = None, v_style = None\<rparr> (Some 2) setUp =
    (\<lparr>pk = 3, created = 3, title = [], code = ''minimal code'', linenos = False,
       language = ''python'', style = ''friendly'', owner = Some 2,
       highlighted = ''<html>minimal code</html>''\<rparr>,
     \<lparr>snippets = [snippet1, snippet2,
        \<lparr>pk = 3, created = 3, title = [], code = ''minimal code'', linenos = False,
         language = ''python'', style = ''friendly'', owner = Some 2,
         highlighted = ''<html>minimal code</html>''\<rparr>],
      users = users setUp, next_pk = 4\<rparr>)"
    by (simp add: Snippet_objects_create_def Let_def render_def test_library_def setUp_eq)
  have st: "status_code (fst (dispatch test_library SnippetList ?post setUp)) = HTTP_201_CREATED"
    by (simp add: dispatch_def check_permissions_def logged_in_def create_def minimal_valid
        perform_create_def SnippetSerializer_create_def c responses)
  have n: "map title (snippets setUp) = [''First Snippet'', ''Second Snippet'']"
    "map style (snippets setUp) = [''friendly'', ''friendly'']"
    by (simp_all add: setUp_eq snippet1_eq snippet2_eq)
  from snippet_defaults [where p = "[''code'' \<mapsto> JStr ''minimal code'']" and lib = test_library
      and vd = "\<lparr>v_title = None, v_code = Some ''minimal code'', v_linenos = None,
       v_language = None, v_style = None\<rparr>" and t = 3 and own = None and d = setUp
      and req = "logged_in 2 ''POST'' [''title'' \<mapsto> JStr ''No Code'']"]
  have a: "title (fst (SnippetSerializer_create test_library 3
      \<lparr>v_title = None, v_code = Some ''minimal code'', v_linenos = None,
       v_language = None, v_style = None\<rparr> None setUp)) = [] \<and>
   \<not> linenos (fst (SnippetSerializer_create test_library 3
      \<lparr>v_title = None, v_code = Some ''minimal code'', v_linenos = None,
       v_language = None, v_style = None\<rparr> None setUp)) \<and>
   language (fst (SnippetSerializer_create test_library 3
      \<lparr>v_title = None, v_code = Some ''minimal code'', v_linenos = None,
       v_language = None, v_style = None\<rparr> None setUp)) = ''python'' \<and>
   style (fst (SnippetSerializer_create test_library 3
      \<lparr>v_title = None, v_code = Some ''minimal code'', v_linenos = None,
       v_language = None, v_style = None\<rparr> None setUp)) = ''friendly'' \<and>
   status_code (fst (create test_library (logged_in 2 ''POST'' [''title'' \<mapsto> JStr ''No Code''])
      setUp)) = HTTP_400_BAD_REQUEST"
    using d q minimal_valid by simp
  note t = snippet_defaults [where p = "[''code'' \<mapsto> JStr ''minimal code'']"
      and lib = test_library
      and vd = "\<lparr>v_title = None, v_code = Some ''minimal code'', v_linenos = None,
       v_language = None, v_style = None\<rparr>" and t = 3 and own = None and d = setUp
      and req = ?post]
  from t [THEN conjunct2, THEN conjunct1] m st
  have "\<exists>s. snippets (snd (dispatch test_library SnippetList ?post setUp)) =
      snippets setUp @ [s] \<and> title s = [] \<and> \<not> linenos s \<and> language s = ''python'' \<and>
      style s = ''friendly''"
    by (rule_tac mp) simp_all
  then obtain s where "snippets (snd (dispatch test_library SnippetList ?post setUp)) =
      snippets setUp @ [s]" "title s = []" "style s = ''friendly''"
    by (elim exE conjE)
  then have b: "map title (snippets (snd (dispatch test_library SnippetList ?post setUp))) =
      [''First Snippet'', ''Second Snippet'', []]"
    "map style (snippets (snd (dispatch test_library SnippetList ?post setUp))) =
      [''friendly'', ''friendly'', ''friendly'']"
    using n by simp_all
  show ?thesis
    using d a st b by simp
qed

text \<open>
  C8. Two requests that differ only in the \<^verbatim>\<open>owner\<close> field of their payloads are served
  alike, response and database, on every endpoint; and the snippet that a POST creates
  is owned by the user who sent the request.
\<close>

theorem payload_owner_ignored:
  assumes "\<forall>f. f \<noteq> ''owner'' \<longrightarrow> data r1 f = data r2 f"
    and "request_method r1 = request_method r2" and "user r1 = user r2" and "now r1 = now r2"
  shows "dispatch lib v r1 d = dispatch lib v r2 d \<and>
     (request_method r1 = ''POST'' \<and>
      status_code (fst (dispatch lib SnippetList r1 d)) = HTTP_201_CREATED \<longrightarrow>
        (\<exists>u s. user r1 = Authenticated u \<and> user r2 = Authenticated u \<and>
           snippets (snd (dispatch lib SnippetList r1 d)) = snippets d @ [s] \<and>
           snippets (snd (dispatch lib SnippetList r2 d)) = snippets d @ [s] \<and>
           owner s = Some u))"
proof -
  have r: "r1 = r2\<lparr>data := data r1\<rparr>"
    using assms(2-4) by simp
  have e: "dispatch lib w (r2\<lparr>data := data r1\<rparr>) d = dispatch lib w r2 d" for w
    by (rule dispatch_data_cong) (simp_all add: assms(1))
  have eq: "dispatch lib w r1 d = dispatch lib w r2 d" for w
    using e [of w] r by simp
  show ?thesis
    using eq created_by_requester [of r1 lib d] assms(3) by auto
qed

theorem payload_owner_ignored_witness:
  "dispatch test_library SnippetList
      (logged_in 2 ''POST'' [''code'' \<mapsto> JStr ''x'', ''owner'' \<mapsto> JStr ''user1'']) setUp =
   dispatch test_library SnippetList (logged_in 2 ''POST'' [''code'' \<mapsto> JStr ''x'']) setUp \<and>
   map owner (snippets (snd (dispatch test_library SnippetList
      (logged_in 2 ''POST'' [''code'' \<mapsto> JStr ''x'', ''owner'' \<mapsto> JStr ''user1'']) setUp))) =
     [Some 1, Some 2, Some 2]"
proof -
  let ?s = "\<lparr>pk = 3, created = 3, title = [], code = ''x'', linenos = False,
      language = ''python'', style = ''friendly'', owner = Some 2,
      highlighted = ''<html>x</html>''\<rparr>"
  let ?d = "\<lparr>snippets = [snippet1, snippet2, ?s], users = users setUp, next_pk = 4\<rparr>"
  have a: "\<forall>f. f \<noteq> ''owner'' \<longrightarrow>
      data (logged_in 2 ''POST'' [''code'' \<mapsto> JStr ''x'', ''owner'' \<mapsto> JStr ''user1'']) f =
      data (logged_in 2 ''POST'' [''code'' \<mapsto> JStr ''x'']) f"
    by (simp add: logged_in_def)
  have v: "SnippetSerializer_is_valid test_library False
      [''code'' \<mapsto> JStr ''x'', ''owner'' \<mapsto> JStr ''user1''] =
      Inr \<lparr>v_title = None, v_code = Some ''x'', v_linenos = None,
           v_language = None, v_style = None\<rparr>"
    by (simp add: SnippetSerializer_is_valid_def Let_def run_field_def test_library_def)
  have c: "Snippet_objects_create test_library 3
      \<lparr>v_title = None, v_code = Some ''x'', v_linenos = None,
       v_language = None, v_style = None\<rparr> (Some 2) setUp = (?s, ?d)"
    by (simp add: Snippet_objects_create_def Let_def render_def test_library_def setUp_eq)
  have e: "snd (dispatch test_library SnippetList
      (logged_in 2 ''POST'' [''code'' \<mapsto> JStr ''x'', ''owner'' \<mapsto> JStr ''user1'']) setUp) = ?d"
    by (simp add: dispatch_def check_permissions_def logged_in_def create_def v
        perform_create_def SnippetSerializer_create_def c)
  have o: "owner snippet1 = Some 1" "owner snippet2 = Some 2"
    by (simp_all add: snippet1_eq snippet2_eq)
  from payload_owner_ignored [OF a, where lib = test_library and v = SnippetList and d = setUp]
  have "dispatch test_library SnippetList
      (logged_in 2 ''POST'' [''code'' \<mapsto> JStr ''x'', ''owner'' \<mapsto> JStr ''user1'']) setUp =
   dispatch test_library SnippetList (logged_in 2 ''POST'' [''code'' \<mapsto> JStr ''x'']) setUp"
    by (simp add: logged_in_def)
  then show ?thesis
    unfolding e using o by simp
qed

text \<open>
  C9, as stated, does not hold: a retrieve is a read request, and the retrieve of a
  key with no persisted snippet by a client that is not logged in is answered 404, not
  200.
\<close>

theorem anonymous_retrieve_missing_counterexample:
  "user (anonymous ''GET'' Map.empty) = AnonymousUser \<and>
   status_code (fst (dispatch test_library (SnippetDetail 9999) (anonymous ''GET'' Map.empty) setUp))
     = HTTP_404_NOT_FOUND"
  by (simp add: anonymous_def dispatch_def check_permissions_def SAFE_METHODS_def retrieve_def
      get_object_def all_setUp snippet1_eq snippet2_eq responses)

text \<open>
  C9, amended. In the authenticated stages a snippet-create request from a client that is
  not logged in is answered 403 and creates no record; a list request from such a client
  is answered 200; a retrieve request from such a client is answered 200 when the
  snippet exists and 404 when it does not. None of them changes the database.
\<close>

theorem anonymous_requests:
  "user req = AnonymousUser \<Longrightarrow>
     (request_method req = ''POST'' \<longrightarrow>
        status_code (fst (dispatch lib SnippetList req d)) = HTTP_403_FORBIDDEN \<and>
        snd (dispatch lib SnippetList req d) = d) \<and>
     (request_method req = ''GET'' \<longrightarrow>
        status_code (fst (dispatch lib SnippetList req d)) = HTTP_200_OK \<and>
        snd (dispatch lib SnippetList req d) = d) \<and>
     (request_method req = ''GET'' \<longrightarrow>
        status_code (fst (dispatch lib (SnippetDetail k) req d)) =
          (if find (\<lambda>s. pk s = k) (Snippet_objects_all d) = None
           then HTTP_404_NOT_FOUND else HTTP_200_OK) \<and>
        snd (dispatch lib (SnippetDetail k) req d) = d)"
proof (intro conjI impI)
  assume a: "user req = AnonymousUser" and m: "request_method req = ''POST''"
  then have "dispatch lib SnippetList req d = (permission_denied, d)"
    by (simp add: dispatch_def check_permissions_SnippetList SAFE_METHODS_def)
  then show "status_code (fst (dispatch lib SnippetList req d)) = HTTP_403_FORBIDDEN"
    "snd (dispatch lib SnippetList req d) = d"
    by (simp_all add: responses)
next
  assume m: "request_method req = ''GET''"
  then have "dispatch lib SnippetList req d = list_snippets d"
    by (simp add: dispatch_def check_permissions_SnippetList SAFE_METHODS_def)
  then show "status_code (fst (dispatch lib SnippetList req d)) = HTTP_200_OK"
    "snd (dispatch lib SnippetList req d) = d"
    by (simp_all add: list_snippets_def responses)
  from retrieve_get [OF m]
  show "status_code (fst (dispatch lib (SnippetDetail k) req d)) =
          (if find (\<lambda>s. pk s = k) (Snippet_objects_all d) = None
           then HTTP_404_NOT_FOUND else HTTP_200_OK)"
    "snd (dispatch lib (SnippetDetail k) req d) = d"
    by (auto simp: responses split: option.splits)
qed

theorem anonymous_requests_witness:
  "status_code (fst (dispatch test_library SnippetList
      (anonymous ''POST'' [''code'' \<mapsto> JStr ''print(3)'']) setUp)) = HTTP_403_FORBIDDEN \<and>
   snd (dispatch test_library SnippetList
      (anonymous ''POST'' [''code'' \<mapsto> JStr ''print(3)'']) setUp) = setUp \<and>
   status_code (fst (dispatch test_library SnippetList (anonymous ''GET'' Map.empty) setUp))
     = HTTP_200_OK \<and>
   status_code (fst (dispatch test_library (SnippetDetail 1) (anonymous ''GET'' Map.empty) setUp))
     = HTTP_200_OK \<and>
   status_code (fst (dispatch test_library (SnippetDetail 9999) (anonymous ''GET'' Map.empty) setUp))
     = HTTP_404_NOT_FOUND"
proof -
  have u: "user (anonymous m p) = AnonymousUser" for m p
    by (simp add: anonymous_def)
  have f: "find (\<lambda>s. pk s = 1) (Snippet_objects_all setUp) \<noteq> None"
    "find (\<lambda>s. pk s = 9999) (Snippet_objects_all setUp) = None"
    by (simp_all add: all_setUp snippet1_eq snippet2_eq)
  note t = anonymous_requests [OF u, where lib = test_library and d = setUp]
  from t [of "''POST''" "[''code'' \<mapsto> JStr ''print(3)'']" 1]
    t [of "''GET''" Map.empty 1] t [of "''GET''" Map.empty 9999]
  show ?thesis
    using f by (simp add: anonymous_def)
qed

text \<open>
  C10. A request that is answered 400, 403 or 405 leaves the database as it was: the same
  snippet rows with the same fields, and so the same count.
\<close>

theorem rejected_request_changes_nothing:
  "status_code (fst (dispatch lib v req d)) = HTTP_400_BAD_REQUEST \<or>
   status_code (fst (dispatch lib v req d)) = HTTP_403_FORBIDDEN \<or>
   status_code (fst (dispatch lib v req d)) = HTTP_405_METHOD_NOT_ALLOWED \<Longrightarrow>
     snd (dispatch lib v req d) = d \<and>
     snippets (snd (dispatch lib v req d)) = snippets d \<and>
     Snippet_objects_count (snd (dispatch lib v req d)) = Snippet_objects_count d"
proof -
  assume "status_code (fst (dispatch lib v req d)) = HTTP_400_BAD_REQUEST \<or>
   status_code (fst (dispatch lib v req d)) = HTTP_403_FORBIDDEN \<or>
   status_code (fst (dispatch lib v req d)) = HTTP_405_METHOD_NOT_ALLOWED"
  then have "400 \<le> status_code (fst (dispatch lib v req d))"
    by auto
  then have "snd (dispatch lib v req d) = d"
    by (rule dispatch_failed_unchanged)
  then show ?thesis
    by simp
qed

theorem rejected_request_changes_nothing_witness:
  "status_code (fst (dispatch test_library SnippetList
      (logged_in 1 ''POST'' [''title'' \<mapsto> JStr ''No Code'']) setUp)) = HTTP_400_BAD_REQUEST \<and>
   snippets (snd (dispatch test_library SnippetList
      (logged_in 1 ''POST'' [''title'' \<mapsto> JStr ''No Code'']) setUp)) = [snippet1, snippet2] \<and>
   status_code (fst (dispatch test_library (SnippetDetail 1)
      (logged_in 2 ''DELETE'' Map.empty) setUp)) = HTTP_403_FORBIDDEN \<and>
   Snippet_objects_count (snd (dispatch test_library (SnippetDetail 1)
      (logged_in 2 ''DELETE'' Map.empty) setUp)) = 2 \<and>
   status_code (fst (dispatch test_library SnippetList
      (logged_in 1 ''DELETE'' Map.empty) setUp)) = HTTP_405_METHOD_NOT_ALLOWED \<and>
   snd (dispatch test_library SnippetList (logged_in 1 ''DELETE'' Map.empty) setUp) = setUp"
proof -
  have a: "status_code (fst (dispatch test_library SnippetList
      (logged_in 1 ''POST'' [''title'' \<mapsto> JStr ''No Code'']) setUp)) = HTTP_400_BAD_REQUEST"
    unfolding post_no_code by (simp add: responses)
  have b: "status_code (fst (dispatch test_library (SnippetDetail 1)
      (logged_in 2 ''DELETE'' Map.empty) setUp)) = HTTP_403_FORBIDDEN"
    unfolding delete_as_non_owner by (simp add: responses)
  have c: "status_code (fst (dispatch test_library SnippetList
      (logged_in 1 ''DELETE'' Map.empty) setUp)) = HTTP_405_METHOD_NOT_ALLOWED"
    unfolding delete_list by (simp add: responses)
  have n: "snippets setUp = [snippet1, snippet2]"
    by (simp add: setUp_eq)
  have n': "Snippet_objects_count setUp = 2"
    by (simp add: Snippet_objects_count_def all_setUp)
  from rejected_request_changes_nothing [OF disjI1, OF a]
    rejected_request_changes_nothing [OF disjI2, OF disjI1, OF b]
    rejected_request_changes_nothing [OF disjI2, OF disjI2, OF c]
  show ?thesis
    using a b c n n' by simp
qed

end
